theory Spec2Isabelle
  imports Main
begin

section \<open>Data model\<close>

text \<open>
  The service in \<^verbatim>\<open>backend/app/main.py\<close> has two request handlers:
  \<^verbatim>\<open>upload_file\<close> (POST /api/upload) and \<^verbatim>\<open>websocket_processing\<close>
  (the streaming endpoint /ws/process). Both only sequence calls to collaborators
  (file processor, AI processor, video processor, task store) and talk to the
  client. Each handler is modelled as a function from its inputs and the state
  it can touch to its outcome, the new state, and the ordered list of the
  operations it performed.
\<close>

text \<open>A chapter as the task store returns it: the handler reads \<^verbatim>\<open>chapter.title\<close>.\<close>

record Chapter =
  title :: string

text \<open>
  A Python exception deriving from \<^verbatim>\<open>Exception\<close>, as a collaborator or the
  operating system raises it. The argument is the text of \<^verbatim>\<open>str(e)\<close>.
  \<^verbatim>\<open>IOError\<close> is kept apart because the file-save step catches only it;
  \<^verbatim>\<open>NotFound\<close> is the failure of the task store's lookup.
\<close>

datatype failure = IOError string | NotFound string | Exception string

fun str_of :: "failure \<Rightarrow> string" where
  "str_of (IOError m) = m"
| "str_of (NotFound m) = m"
| "str_of (Exception m) = m"

fun is_IOError :: "failure \<Rightarrow> bool" where
  "is_IOError (IOError m) = True"
| "is_IOError (NotFound m) = False"
| "is_IOError (Exception m) = False"

text \<open>
  The world outside the process: the regular files that exist (path to bytes),
  the paths that cannot be opened for writing (path to the text of the error
  \<^verbatim>\<open>open\<close> raises there), and the hidden state \<open>ext\<close> of the external services (model
  randomness, remote state), which the handlers never inspect.
\<close>

record 'x world =
  files :: "string \<rightharpoonup> string"
  unwritable :: "string \<rightharpoonup> string"
  ext :: 'x

text \<open>
  The collaborators (\<^verbatim>\<open>file_processor\<close>, \<^verbatim>\<open>ai_processor\<close>,
  \<^verbatim>\<open>video_processor\<close>, \<^verbatim>\<open>uuid\<close>) are parameters of the model. Each call
  takes the world, may change it, and either returns a value or raises. The
  Python values they exchange (script, audio path, subtitles, image path, video
  path, extracted text) are dynamically typed: one type \<open>'v\<close>.

  The last field is the part of the filesystem that stays fixed while a request
  runs: the paths that are directories. No collaborator creates or removes a
  directory, so they are a parameter and not part of the world the calls thread.
\<close>

record ('v, 'x) services =
  process_file :: "string \<Rightarrow> 'x world \<Rightarrow> (failure + 'v) \<times> 'x world"
  generact_list_of_subject :: "'v \<Rightarrow> 'x world \<Rightarrow> (failure + string list) \<times> 'x world"
  generate_script :: "Chapter \<Rightarrow> string \<Rightarrow> 'x world \<Rightarrow> (failure + 'v) \<times> 'x world"
  generate_voiceover :: "'v \<Rightarrow> 'x world \<Rightarrow> (failure + 'v) \<times> 'x world"
  generate_subtitles :: "'v \<Rightarrow> 'x world \<Rightarrow> (failure + 'v) \<times> 'x world"
  generate_image :: "'v \<Rightarrow> string \<Rightarrow> 'x world \<Rightarrow> (failure + 'v) \<times> 'x world"
  create_video :: "'v \<Rightarrow> 'v \<Rightarrow> 'v \<Rightarrow> 'v \<Rightarrow> 'x world \<Rightarrow> (failure + 'v) \<times> 'x world"
  uuid4 :: "'x world \<Rightarrow> string \<times> 'x world"
  directories :: "string set"

subsection \<open>Task store\<close>

text \<open>
  Modelled from the spec: the task store \<^verbatim>\<open>db_service\<close> is not among the
  sources. The specification gives a task as an identifier, the original
  filename and the ordered chapters; the store is keyed by the identifier.
\<close>

record task =
  stored_filename :: string
  stored_chapters :: "Chapter list"

type_synonym task_store = "string \<rightharpoonup> task"

text \<open>
  Modelled from the spec: \<^verbatim>\<open>db_service.store_task\<close> is not among the sources.
  The specification gives \<^verbatim>\<open>store_task(task_id, filename, chapters) -> void\<close>,
  with a stored task immediately visible to a later lookup.
\<close>

definition store_task :: "task_store \<Rightarrow> string \<Rightarrow> string \<Rightarrow> Chapter list \<Rightarrow> task_store" where
  "store_task db task_id name chs =
     db(task_id \<mapsto> \<lparr>stored_filename = name, stored_chapters = chs\<rparr>)"

text \<open>
  Modelled from the spec: \<^verbatim>\<open>db_service.get_chapters\<close> is not among the sources.
  The specification gives \<^verbatim>\<open>get_chapters(task_id) -> ordered sequence of Chapter,
  fails with NotFound if absent\<close>. The text of that failure is not fixed by the
  specification; the model raises it with the task id as its argument.
\<close>

definition get_chapters :: "task_store \<Rightarrow> string \<Rightarrow> failure + Chapter list" where
  "get_chapters db task_id =
     (case db task_id of
        None \<Rightarrow> Inl (NotFound task_id)
      | Some t \<Rightarrow> Inr (stored_chapters t))"

section \<open>The streaming endpoint\<close>

text \<open>The JSON messages of \<^verbatim>\<open>websocket.send_json\<close>, by their \<^verbatim>\<open>status\<close> field.\<close>

datatype 'v event =
    Processing nat nat \<comment> \<open>chapter, total\_chapters\<close>
  | ChapterComplete 'v string \<comment> \<open>video\_path, chapter\_title\<close>
  | Completed string \<comment> \<open>message\<close>
  | Error string \<comment> \<open>message\<close>

text \<open>A call of a pipeline stage, with its arguments.\<close>

datatype 'v stage =
    GenerateScript Chapter string
  | GenerateVoiceover 'v
  | GenerateSubtitles 'v
  | GenerateImage 'v string
  | CreateVideo 'v 'v 'v 'v

text \<open>
  What the handler does, in order: operations on the websocket, stage calls with
  what they returned or raised, and the pause between chapters.
\<close>

datatype 'v action =
    WsClose "(nat \<times> string) option" \<comment> \<open>close code and reason, if given\<close>
  | WsAccept
  | WsSend "'v event"
  | Call "'v stage" "failure + 'v"
  | Sleep nat

text \<open>
  Python's \<^verbatim>\<open>xs[start:stop]\<close> for integers: a negative bound counts from the
  end, and both bounds are clamped to the list.
\<close>

definition py_slice :: "'a list \<Rightarrow> int \<Rightarrow> int \<Rightarrow> 'a list" where
  "py_slice xs start stop =
     (let n = int (length xs);
          lo = (if start < 0 then max (n + start) 0 else min start n);
          hi = (if stop < 0 then max (n + stop) 0 else min stop n)
      in take (nat (hi - lo)) (drop (nat lo) xs))"

text \<open>
  The body of the \<^verbatim>\<open>for idx, chapter in enumerate(selected_chapters)\<close> loop
  (lines 136 to 174). A stage that raises ends the body at once; the exception
  leaves the loop.
\<close>

definition process_chapter ::
  "('v, 'x) services \<Rightarrow> string \<Rightarrow> nat \<Rightarrow> nat \<Rightarrow> Chapter \<Rightarrow> 'x world
     \<Rightarrow> (failure + unit) \<times> 'v action list \<times> 'x world" where
  "process_chapter svc content_type total_chapters idx chapter w =
     (let t0 = [WsSend (Processing (idx + 1) total_chapters)] in
      case generate_script svc chapter content_type w of
        (Inl e, w1) \<Rightarrow> (Inl e, t0 @ [Call (GenerateScript chapter content_type) (Inl e)], w1)
      | (Inr script, w1) \<Rightarrow>
     (let t1 = t0 @ [Call (GenerateScript chapter content_type) (Inr script)] in
      case generate_voiceover svc script w1 of
        (Inl e, w2) \<Rightarrow> (Inl e, t1 @ [Call (GenerateVoiceover script) (Inl e)], w2)
      | (Inr audio_path, w2) \<Rightarrow>
     (let t2 = t1 @ [Call (GenerateVoiceover script) (Inr audio_path)] in
      case generate_subtitles svc audio_path w2 of
        (Inl e, w3) \<Rightarrow> (Inl e, t2 @ [Call (GenerateSubtitles audio_path) (Inl e)], w3)
      | (Inr subtitles, w3) \<Rightarrow>
     (let t3 = t2 @ [Call (GenerateSubtitles audio_path) (Inr subtitles)] in
      case generate_image svc script content_type w3 of
        (Inl e, w4) \<Rightarrow> (Inl e, t3 @ [Call (GenerateImage script content_type) (Inl e)], w4)
      | (Inr image_path, w4) \<Rightarrow>
     (let t4 = t3 @ [Call (GenerateImage script content_type) (Inr image_path)] in
      case create_video svc script audio_path subtitles image_path w4 of
        (Inl e, w5) \<Rightarrow>
          (Inl e, t4 @ [Call (CreateVideo script audio_path subtitles image_path) (Inl e)], w5)
      | (Inr video_path, w5) \<Rightarrow>
          (Inr (),
           t4 @ [Call (CreateVideo script audio_path subtitles image_path) (Inr video_path),
                 WsSend (ChapterComplete video_path (title chapter)),
                 Sleep 1],
           w5))))))"

text \<open>The loop over the selected chapters; \<open>idx\<close> is the position \<^verbatim>\<open>enumerate\<close> gives.\<close>

fun process_chapters ::
  "('v, 'x) services \<Rightarrow> string \<Rightarrow> nat \<Rightarrow> nat \<Rightarrow> Chapter list \<Rightarrow> 'x world
     \<Rightarrow> (failure + unit) \<times> 'v action list \<times> 'x world" where
  "process_chapters svc content_type total_chapters idx [] w = (Inr (), [], w)"
| "process_chapters svc content_type total_chapters idx (chapter # rest) w =
     (case process_chapter svc content_type total_chapters idx chapter w of
        (Inl e, t, w') \<Rightarrow> (Inl e, t, w')
      | (Inr u, t, w') \<Rightarrow>
          (case process_chapters svc content_type total_chapters (Suc idx) rest w' of
             (r, t', w'') \<Rightarrow> (r, t @ t', w'')))"

text \<open>
  The \<^verbatim>\<open>try\<close> block of the handler (lines 125 to 180): lookup, slice, loop,
  final message.
\<close>

definition stream_chapters ::
  "('v, 'x) services \<Rightarrow> task_store \<Rightarrow> string \<Rightarrow> string \<Rightarrow> int \<Rightarrow> int \<Rightarrow> 'x world
     \<Rightarrow> (failure + unit) \<times> 'v action list \<times> 'x world" where
  "stream_chapters svc db task_id content_type start_chapter end_chapter w =
     (case get_chapters db task_id of
        Inl e \<Rightarrow> (Inl e, [], w)
      | Inr chapters \<Rightarrow>
          (let selected_chapters = py_slice chapters start_chapter (end_chapter + 1) in
           case process_chapters svc content_type (length selected_chapters) 0
                  selected_chapters w of
             (Inl e, t, w') \<Rightarrow> (Inl e, t, w')
           | (Inr u, t, w') \<Rightarrow>
               (Inr (), t @ [WsSend (Completed ''All chapters processed successfully'')], w')))"

text \<open>
  The handler \<^verbatim>\<open>websocket_processing\<close>. An empty task id closes the socket
  with code 4003 before it is accepted. Otherwise the socket is accepted, the
  \<^verbatim>\<open>try\<close> block runs, \<^verbatim>\<open>except Exception\<close> sends the error message, and
  \<^verbatim>\<open>finally\<close> closes the socket. The model takes the transport to be
  reliable: \<^verbatim>\<open>accept\<close>, \<^verbatim>\<open>send_json\<close> and \<^verbatim>\<open>close\<close> do not raise.
  Output of \<^verbatim>\<open>print\<close> is not modelled.
\<close>

definition websocket_processing ::
  "('v, 'x) services \<Rightarrow> task_store \<Rightarrow> string \<Rightarrow> string \<Rightarrow> int \<Rightarrow> int \<Rightarrow> 'x world
     \<Rightarrow> 'v action list \<times> 'x world" where
  "websocket_processing svc db task_id content_type start_chapter end_chapter w =
     (if task_id = [] then ([WsClose (Some (4003, ''Invalid task_id''))], w)
      else
        (case stream_chapters svc db task_id content_type start_chapter end_chapter w of
           (Inl e, t, w') \<Rightarrow>
             ([WsAccept] @ t @ [WsSend (Error (str_of e))] @ [WsClose None], w')
         | (Inr u, t, w') \<Rightarrow> ([WsAccept] @ t @ [WsClose None], w')))"

text \<open>The events the client receives: the messages sent, in order.\<close>

fun sent :: "'v action list \<Rightarrow> 'v event list" where
  "sent [] = []"
| "sent (WsSend e # t) = e # sent t"
| "sent (WsClose c # t) = sent t"
| "sent (WsAccept # t) = sent t"
| "sent (Call s r # t) = sent t"
| "sent (Sleep n # t) = sent t"

text \<open>A stage call that raised.\<close>

fun failed :: "'v action \<Rightarrow> bool" where
  "failed (Call s (Inl e)) = True"
| "failed (Call s (Inr v)) = False"
| "failed (WsSend e) = False"
| "failed (WsClose c) = False"
| "failed WsAccept = False"
| "failed (Sleep n) = False"

text \<open>
  An action of a chapter iteration that ran through: a progress or result
  message, a stage call that returned, or the pause.
\<close>

fun routine :: "'v action \<Rightarrow> bool" where
  "routine (WsSend (Processing i n)) = True"
| "routine (WsSend (ChapterComplete v s)) = True"
| "routine (WsSend (Completed m)) = False"
| "routine (WsSend (Error m)) = False"
| "routine (Call s (Inr v)) = True"
| "routine (Call s (Inl e)) = False"
| "routine (Sleep n) = True"
| "routine (WsClose c) = False"
| "routine WsAccept = False"

text \<open>
  The actions of one loop iteration in which every stage returned, given the
  five values the stages returned (script, audio path, subtitles, image path,
  video path).
\<close>

definition iteration ::
  "string \<Rightarrow> nat \<Rightarrow> nat \<Rightarrow> Chapter \<Rightarrow> 'v \<times> 'v \<times> 'v \<times> 'v \<times> 'v \<Rightarrow> 'v action list" where
  "iteration content_type total_chapters idx chapter arts =
     (case arts of (script, audio_path, subtitles, image_path, video_path) \<Rightarrow>
        [WsSend (Processing (idx + 1) total_chapters),
         Call (GenerateScript chapter content_type) (Inr script),
         Call (GenerateVoiceover script) (Inr audio_path),
         Call (GenerateSubtitles audio_path) (Inr subtitles),
         Call (GenerateImage script content_type) (Inr image_path),
         Call (CreateVideo script audio_path subtitles image_path) (Inr video_path),
         WsSend (ChapterComplete video_path (title chapter)),
         Sleep 1])"

text \<open>
  What it means, in terms of the collaborators alone, that the five stages
  return for a chapter: called in the world \<open>w\<close>, script generation returns
  the script; voice synthesis, called with that script in the world script
  generation left, returns the audio path; and so on to the video, whose call
  leaves the world \<open>w'\<close>.
\<close>

definition stages_return ::
  "('v, 'x) services \<Rightarrow> string \<Rightarrow> Chapter \<Rightarrow> 'x world \<Rightarrow> 'v \<times> 'v \<times> 'v \<times> 'v \<times> 'v
     \<Rightarrow> 'x world \<Rightarrow> bool" where
  "stages_return svc content_type chapter w arts w' =
     (case arts of (script, audio_path, subtitles, image_path, video_path) \<Rightarrow>
        \<exists>w1 w2 w3 w4.
          generate_script svc chapter content_type w = (Inr script, w1) \<and>
          generate_voiceover svc script w1 = (Inr audio_path, w2) \<and>
          generate_subtitles svc audio_path w2 = (Inr subtitles, w3) \<and>
          generate_image svc script content_type w3 = (Inr image_path, w4) \<and>
          create_video svc script audio_path subtitles image_path w4 = (Inr video_path, w'))"

text \<open>
  The stages return for each chapter of a list in turn, each chapter starting in
  the world the one before left; \<open>arts\<close> are the values returned, chapter by
  chapter.
\<close>

fun chapters_return ::
  "('v, 'x) services \<Rightarrow> string \<Rightarrow> Chapter list \<Rightarrow> 'x world
     \<Rightarrow> ('v \<times> 'v \<times> 'v \<times> 'v \<times> 'v) list \<Rightarrow> 'x world \<Rightarrow> bool" where
  "chapters_return svc content_type [] w arts w' = (arts = [] \<and> w' = w)"
| "chapters_return svc content_type (chapter # rest) w [] w' = False"
| "chapters_return svc content_type (chapter # rest) w (a # arts) w' =
     (\<exists>w1. stages_return svc content_type chapter w a w1 \<and>
           chapters_return svc content_type rest w1 arts w')"

text \<open>
  A stage raises \<open>err\<close> for a chapter: script generation raises it, or script
  generation returns and voice synthesis raises it, and so on; the stages before
  the raising one return. \<open>calls\<close> are the calls made, with what each returned
  or raised, and \<open>w'\<close> is the world the raising call leaves.
\<close>

definition stage_raises ::
  "('v, 'x) services \<Rightarrow> string \<Rightarrow> Chapter \<Rightarrow> 'x world \<Rightarrow> failure \<Rightarrow> 'v action list
     \<Rightarrow> 'x world \<Rightarrow> bool" where
  "stage_raises svc content_type chapter w err calls w' =
     ((generate_script svc chapter content_type w = (Inl err, w') \<and>
       calls = [Call (GenerateScript chapter content_type) (Inl err)])
      \<or>
      (\<exists>script w1.
         generate_script svc chapter content_type w = (Inr script, w1) \<and>
         generate_voiceover svc script w1 = (Inl err, w') \<and>
         calls = [Call (GenerateScript chapter content_type) (Inr script),
                  Call (GenerateVoiceover script) (Inl err)])
      \<or>
      (\<exists>script audio_path w1 w2.
         generate_script svc chapter content_type w = (Inr script, w1) \<and>
         generate_voiceover svc script w1 = (Inr audio_path, w2) \<and>
         generate_subtitles svc audio_path w2 = (Inl err, w') \<and>
         calls = [Call (GenerateScript chapter content_type) (Inr script),
                  Call (GenerateVoiceover script) (Inr audio_path),
                  Call (GenerateSubtitles audio_path) (Inl err)])
      \<or>
      (\<exists>script audio_path subtitles w1 w2 w3.
         generate_script svc chapter content_type w = (Inr script, w1) \<and>
         generate_voiceover svc script w1 = (Inr audio_path, w2) \<and>
         generate_subtitles svc audio_path w2 = (Inr subtitles, w3) \<and>
         generate_image svc script content_type w3 = (Inl err, w') \<and>
         calls = [Call (GenerateScript chapter content_type) (Inr script),
                  Call (GenerateVoiceover script) (Inr audio_path),
                  Call (GenerateSubtitles audio_path) (Inr subtitles),
                  Call (GenerateImage script content_type) (Inl err)])
      \<or>
      (\<exists>script audio_path subtitles image_path w1 w2 w3 w4.
         generate_script svc chapter content_type w = (Inr script, w1) \<and>
         generate_voiceover svc script w1 = (Inr audio_path, w2) \<and>
         generate_subtitles svc audio_path w2 = (Inr subtitles, w3) \<and>
         generate_image svc script content_type w3 = (Inr image_path, w4) \<and>
         create_video svc script audio_path subtitles image_path w4 = (Inl err, w') \<and>
         calls = [Call (GenerateScript chapter content_type) (Inr script),
                  Call (GenerateVoiceover script) (Inr audio_path),
                  Call (GenerateSubtitles audio_path) (Inr subtitles),
                  Call (GenerateImage script content_type) (Inr image_path),
                  Call (CreateVideo script audio_path subtitles image_path) (Inl err)]))"

section \<open>The upload endpoint\<close>

text \<open>The uploaded file: its name, which may be missing or empty, and its bytes.\<close>

record UploadFile =
  filename :: "string option"
  data :: string

text \<open>The 200 response: \<^verbatim>\<open>task_id\<close> and \<^verbatim>\<open>chapters\<close>.\<close>

datatype UploadResponse = UploadResponse string "string list"

text \<open>
  How a block of the handler can end other than by returning: with an
  \<^verbatim>\<open>HTTPException\<close> (status code and detail), which the framework turns into
  the error response, or with another exception.
\<close>

datatype raised = HTTPException nat string | Uncaught failure

text \<open>
  What the upload handler does, in order: the file save, the two collaborator
  calls with what they returned or raised, removals of the temporary file, the
  allocation of the task id, the store call, and closing the upload.
\<close>

datatype 'v effect =
    OpenWrite string
  | ProcessFile string "failure + 'v"
  | GeneractListOfSubject 'v "failure + string list"
  | OsRemove string
  | Uuid4 string
  | StoreTask string string "Chapter list"
  | FileClose

text \<open>
  The operating system's calls take the set \<open>dirs\<close> of the paths that are
  directories. A path in \<open>dirs\<close> is a directory whatever \<open>files\<close> says.
\<close>

text \<open>
  The path as the text of an \<^verbatim>\<open>OSError\<close> shows it: between single quotes
  (Python's \<^verbatim>\<open>repr\<close>, for a path without quotes or backslashes).
\<close>

definition quoted :: "string \<Rightarrow> string" where
  "quoted path = [CHR 0x27] @ path @ [CHR 0x27]"

text \<open>
  \<^verbatim>\<open>with open(path, "wb") as buffer: buffer.write(bytes)\<close>: raises
  \<^verbatim>\<open>IsADirectoryError\<close> (an \<^verbatim>\<open>IOError\<close>) on a directory and
  \<^verbatim>\<open>IOError\<close> where the path cannot be opened; otherwise the regular file
  exists afterwards with exactly these bytes.
\<close>

definition open_write ::
  "string set \<Rightarrow> string \<Rightarrow> string \<Rightarrow> 'x world \<Rightarrow> failure + 'x world" where
  "open_write dirs path bytes w =
     (if path \<in> dirs then Inl (IOError (''[Errno 21] Is a directory: '' @ quoted path))
      else
        case unwritable w path of
          Some m \<Rightarrow> Inl (IOError m)
        | None \<Rightarrow> Inr (w\<lparr>files := (files w)(path \<mapsto> bytes)\<rparr>))"

text \<open>\<^verbatim>\<open>os.path.exists(path)\<close>: a directory or a regular file.\<close>

definition path_exists :: "string set \<Rightarrow> string \<Rightarrow> 'x world \<Rightarrow> bool" where
  "path_exists dirs path w = (path \<in> dirs \<or> files w path \<noteq> None)"

text \<open>\<^verbatim>\<open>os.path.isfile(path)\<close>: a regular file.\<close>

definition isfile :: "string set \<Rightarrow> string \<Rightarrow> 'x world \<Rightarrow> bool" where
  "isfile dirs path w = (path \<notin> dirs \<and> files w path \<noteq> None)"

text \<open>
  \<^verbatim>\<open>os.remove(path)\<close>: raises \<^verbatim>\<open>IsADirectoryError\<close> on a directory and
  \<^verbatim>\<open>FileNotFoundError\<close> when there is nothing at the path (both are
  \<^verbatim>\<open>IOError\<close>); a regular file is removed. Removing a regular file is
  taken not to be refused.
\<close>

definition os_remove :: "string set \<Rightarrow> string \<Rightarrow> 'x world \<Rightarrow> failure + 'x world" where
  "os_remove dirs path w =
     (if path \<in> dirs then Inl (IOError (''[Errno 21] Is a directory: '' @ quoted path))
      else if files w path = None then
        Inl (IOError (''[Errno 2] No such file or directory: '' @ quoted path))
      else Inr (w\<lparr>files := (files w)(path := None)\<rparr>))"

text \<open>
  The \<^verbatim>\<open>except Exception\<close> handler of the processing step (lines 69 to 72):
  remove the temporary file, then raise 422 with the cause. If the removal
  itself raises, that exception leaves the handler instead.
\<close>

definition processing_failed ::
  "string set \<Rightarrow> string \<Rightarrow> failure \<Rightarrow> 'x world \<Rightarrow> raised \<times> 'x world" where
  "processing_failed dirs temp_path e w =
     (case os_remove dirs temp_path w of
        Inl e' \<Rightarrow> (Uncaught e', w)
      | Inr w' \<Rightarrow> (HTTPException 422 (''Error processing file: '' @ str_of e), w'))"

text \<open>
  The body of the outer \<^verbatim>\<open>try\<close> (lines 44 to 91). Besides the outcome, the
  task store, the world and the effects, it yields \<^verbatim>\<open>temp_path\<close> if that
  local variable has been assigned, which the \<^verbatim>\<open>finally\<close> block tests.
\<close>

definition upload_try ::
  "('v, 'x) services \<Rightarrow> UploadFile \<Rightarrow> task_store \<Rightarrow> 'x world
     \<Rightarrow> (raised + UploadResponse) \<times> string option \<times> task_store \<times> 'x world \<times> 'v effect list" where
  "upload_try svc file db w =
     (if filename file = None \<or> filename file = Some [] then
        (Inl (HTTPException 400 ''No file name provided''), None, db, w, [])
      else
        let name = the (filename file);
            file_size = length (data file)
        in
        if file_size > 100 * 1024 * 1024 then
          (Inl (HTTPException 413 ''File too large. Maximum size is 100MB''), None, db, w, [])
        else
          let temp_path = ''./videos/tmp/'' @ name in
          case open_write (directories svc) temp_path (data file) w of
            Inl e \<Rightarrow>
              (if is_IOError e then
                 (Inl (HTTPException 500 (''Error saving file: '' @ str_of e)),
                  Some temp_path, db, w, [OpenWrite temp_path])
               else (Inl (Uncaught e), Some temp_path, db, w, [OpenWrite temp_path]))
          | Inr w1 \<Rightarrow>
         (case process_file svc temp_path w1 of
            (Inl e, w2) \<Rightarrow>
              (case processing_failed (directories svc) temp_path e w2 of
                 (x, w3) \<Rightarrow>
                   (Inl x, Some temp_path, db, w3,
                    [OpenWrite temp_path, ProcessFile temp_path (Inl e), OsRemove temp_path]))
          | (Inr content, w2) \<Rightarrow>
         (case generact_list_of_subject svc content w2 of
            (Inl e, w3) \<Rightarrow>
              (case processing_failed (directories svc) temp_path e w3 of
                 (x, w4) \<Rightarrow>
                   (Inl x, Some temp_path, db, w4,
                    [OpenWrite temp_path, ProcessFile temp_path (Inr content),
                     GeneractListOfSubject content (Inl e), OsRemove temp_path]))
          | (Inr chapters_of_subject, w3) \<Rightarrow>
         (case uuid4 svc w3 of
            (task_id, w4) \<Rightarrow>
              (let chs = map (\<lambda>chapter. \<lparr>title = chapter\<rparr>) chapters_of_subject in
               (Inr (UploadResponse task_id chapters_of_subject),
                Some temp_path,
                store_task db task_id name chs,
                w4,
                [OpenWrite temp_path, ProcessFile temp_path (Inr content),
                 GeneractListOfSubject content (Inr chapters_of_subject),
                 Uuid4 task_id, StoreTask task_id name chs]))))))"

text \<open>
  The handler \<^verbatim>\<open>upload_file\<close>: the \<^verbatim>\<open>try\<close> body, then the two
  \<^verbatim>\<open>except\<close> clauses (an \<^verbatim>\<open>HTTPException\<close> is raised again, any other
  exception becomes a 500), then the \<^verbatim>\<open>finally\<close> block, which closes the
  upload and removes the temporary file if \<^verbatim>\<open>temp_path\<close> is assigned and the
  path exists. An exception raised by that removal leaves the handler in place
  of the outcome so far. Closing the upload is taken not to raise.
\<close>

definition upload_file ::
  "('v, 'x) services \<Rightarrow> UploadFile \<Rightarrow> task_store \<Rightarrow> 'x world
     \<Rightarrow> (raised + UploadResponse) \<times> task_store \<times> 'x world \<times> 'v effect list" where
  "upload_file svc file db w =
     (case upload_try svc file db w of
        (r, temp_path, db', w', effs) \<Rightarrow>
          (let r' = (case r of
                       Inl (HTTPException code detail) \<Rightarrow> Inl (HTTPException code detail)
                     | Inl (Uncaught e) \<Rightarrow>
                         Inl (HTTPException 500 (''Unexpected error: '' @ str_of e))
                     | Inr resp \<Rightarrow> Inr resp)
           in
           case temp_path of
             None \<Rightarrow> (r', db', w', effs @ [FileClose])
           | Some p \<Rightarrow>
               (if path_exists (directories svc) p w' then
                  (case os_remove (directories svc) p w' of
                     Inl e \<Rightarrow> (Inl (Uncaught e), db', w', effs @ [FileClose, OsRemove p])
                   | Inr w'' \<Rightarrow> (r', db', w'', effs @ [FileClose, OsRemove p]))
                else (r', db', w', effs @ [FileClose]))))"

text \<open>
  The status the client sees: 200 for a response, the code of an
  \<^verbatim>\<open>HTTPException\<close>, and 500 for any other exception leaving the handler.
\<close>

fun status :: "raised + UploadResponse \<Rightarrow> nat" where
  "status (Inr resp) = 200"
| "status (Inl (HTTPException code detail)) = code"
| "status (Inl (Uncaught e)) = 500"

fun is_store :: "'v effect \<Rightarrow> bool" where
  "is_store (StoreTask i n c) = True"
| "is_store (OpenWrite p) = False"
| "is_store (ProcessFile p r) = False"
| "is_store (GeneractListOfSubject c r) = False"
| "is_store (OsRemove p) = False"
| "is_store (Uuid4 i) = False"
| "is_store FileClose = False"

fun is_uuid :: "'v effect \<Rightarrow> bool" where
  "is_uuid (Uuid4 i) = True"
| "is_uuid (StoreTask i n c) = False"
| "is_uuid (OpenWrite p) = False"
| "is_uuid (ProcessFile p r) = False"
| "is_uuid (GeneractListOfSubject c r) = False"
| "is_uuid (OsRemove p) = False"
| "is_uuid FileClose = False"

section \<open>A concrete scenario\<close>

text \<open>
  Collaborators, a world and a task store on which the handlers can be run:
  the specification's example of a document with the chapters Intro, Body and
  Conclusion. Voice synthesis fails for the chapter Body when the external
  state is 1, and succeeds otherwise. The one directory is the parent of the
  temporary directory, reached through the file name \<^verbatim>\<open>..\<close>.
\<close>

text \<open>A progress message.\<close>

fun is_processing :: "'v event \<Rightarrow> bool" where
  "is_processing (Processing i n) = True"
| "is_processing (ChapterComplete v s) = False"
| "is_processing (Completed m) = False"
| "is_processing (Error m) = False"

definition demo_services :: "(string, nat) services" where
  "demo_services =
     \<lparr>process_file = (\<lambda>path w. case files w path of
                         None \<Rightarrow> (Inl (Exception ''cannot read''), w)
                       | Some bytes \<Rightarrow> (Inr bytes, w)),
      generact_list_of_subject = (\<lambda>content w.
         if content = [] then (Inl (Exception ''empty document''), w)
         else (Inr [''Intro'', ''Body'', ''Conclusion''], w)),
      generate_script = (\<lambda>chapter content_type w. (Inr (''script '' @ title chapter), w)),
      generate_voiceover = (\<lambda>script w.
         if script = ''script Body'' \<and> ext w = 1 then (Inl (Exception ''voice service down''), w)
         else (Inr ''a.mp3'', w)),
      generate_subtitles = (\<lambda>audio_path w. (Inr ''a.srt'', w)),
      generate_image = (\<lambda>script content_type w. (Inr ''a.png'', w)),
      create_video = (\<lambda>script audio_path subtitles image_path w. (Inr (script @ ''.mp4''), w)),
      uuid4 = (\<lambda>w. (''id-'' @ replicate (ext w) (CHR ''x''), w\<lparr>ext := Suc (ext w)\<rparr>)),
      directories = {''./videos/tmp/..''}\<rparr>"

definition demo_world :: "nat \<Rightarrow> nat world" where
  "demo_world k = \<lparr>files = Map.empty, unwritable = Map.empty, ext = k\<rparr>"

definition demo_store :: task_store where
  "demo_store =
     store_task Map.empty ''t1'' ''doc.txt''
       [\<lparr>title = ''Intro''\<rparr>, \<lparr>title = ''Body''\<rparr>, \<lparr>title = ''Conclusion''\<rparr>]"

text \<open>
  Uploads: the specification's example document, a file one byte over the limit,
  a file without a name, an empty file, on which segmentation fails, and a file
  whose name makes the temporary path a directory.
\<close>

definition demo_upload :: UploadFile where
  "demo_upload = \<lparr>filename = Some ''doc.txt'', data = ''three sections''\<rparr>"

definition oversize_upload :: UploadFile where
  "oversize_upload =
     \<lparr>filename = Some ''big.bin'', data = replicate (100 * 1024 * 1024 + 1) (CHR ''a'')\<rparr>"

definition unnamed_upload :: UploadFile where
  "unnamed_upload = \<lparr>filename = None, data = ''three sections''\<rparr>"

definition unreadable_upload :: UploadFile where
  "unreadable_upload = \<lparr>filename = Some ''empty.txt'', data = []\<rparr>"

definition directory_upload :: UploadFile where
  "directory_upload = \<lparr>filename = Some ''..'', data = ''three sections''\<rparr>"

text \<open>The definitions unfolded when the streaming handler is run on the scenario.\<close>

lemmas demo_defs = demo_services_def demo_world_def demo_store_def store_task_def
  websocket_processing_def stream_chapters_def get_chapters_def py_slice_def
  process_chapter_def Let_def

text \<open>The definitions unfolded when the stages are run on the scenario.\<close>

lemmas demo_stage_defs = stages_return_def stage_raises_def demo_services_def demo_world_def

section \<open>Properties of the streaming endpoint\<close>

lemma process_chapter_Inr:
  assumes "process_chapter svc ct n idx ch w = (Inr u, t, w')"
  shows "\<exists>arts. t = iteration ct n idx ch arts"
  using assms
  by (auto simp: process_chapter_def iteration_def Let_def split: prod.splits sum.splits)

lemma process_chapter_Inl:
  assumes "process_chapter svc ct n idx ch w = (Inl e, t, w')"
  shows "\<exists>pre c. t = pre @ [Call c (Inl e)] \<and> list_all routine pre"
  using assms
  by (auto simp: process_chapter_def Let_def split: prod.splits sum.splits)

lemma routine_iteration: "list_all routine (iteration ct n idx ch arts)"
  by (auto simp: iteration_def split: prod.splits)

lemma process_chapters_Inr:
  "process_chapters svc ct n idx chs w = (Inr u, t, w') \<Longrightarrow>
     \<exists>arts. length arts = length chs \<and>
       t = concat (map (\<lambda>i. iteration ct n (idx + i) (chs ! i) (arts ! i)) [0..<length chs])"
proof (induction chs arbitrary: idx w t)
  case Nil
  then show ?case by simp
next
  case (Cons ch chs)
  from Cons.prems obtain t1 w1 t2 where
    b: "process_chapter svc ct n idx ch w = (Inr (), t1, w1)" and
    r: "process_chapters svc ct n (Suc idx) chs w1 = (Inr u, t2, w')" and
    t: "t = t1 @ t2"
    by (auto split: prod.splits sum.splits)
  from process_chapter_Inr [OF b] obtain a where a: "t1 = iteration ct n idx ch a" by blast
  from Cons.IH [OF r] obtain arts where
    l: "length arts = length chs" and
    c: "t2 = concat (map (\<lambda>i. iteration ct n (Suc idx + i) (chs ! i) (arts ! i)) [0..<length chs])"
    by blast
  have "t = concat (map (\<lambda>i. iteration ct n (idx + i) ((ch # chs) ! i) ((a # arts) ! i))
                     [0..<length (ch # chs)])"
    using t a c by (simp add: map_upt_Suc del: upt_Suc)
  with l show ?case by (intro exI [of _ "a # arts"]) simp
qed

lemma process_chapters_Inl:
  "process_chapters svc ct n idx chs w = (Inl e, t, w') \<Longrightarrow>
     \<exists>pre c. t = pre @ [Call c (Inl e)] \<and> list_all routine pre"
proof (induction chs arbitrary: idx w t)
  case Nil
  then show ?case by simp
next
  case (Cons ch chs)
  show ?case
  proof (cases "process_chapter svc ct n idx ch w")
    case (fields r t1 w1)
    show ?thesis
    proof (cases r)
      case (Inl e1)
      with fields Cons.prems have "process_chapter svc ct n idx ch w = (Inl e, t, w')"
        by simp
      then show ?thesis by (rule process_chapter_Inl)
    next
      case (Inr u1)
      with fields Cons.prems obtain t2 where
        r: "process_chapters svc ct n (Suc idx) chs w1 = (Inl e, t2, w')" and
        t: "t = t1 @ t2"
        by (auto split: prod.splits)
      from fields Inr process_chapter_Inr [of svc ct n idx ch w u1 t1 w1]
      obtain a where "t1 = iteration ct n idx ch a" by auto
      then have r1: "list_all routine t1" by (simp add: routine_iteration)
      from Cons.IH [OF r] obtain pre c where "t2 = pre @ [Call c (Inl e)]" "list_all routine pre"
        by blast
      with t r1 have "t = (t1 @ pre) @ [Call c (Inl e)] \<and> list_all routine (t1 @ pre)" by simp
      then show ?thesis by blast
    qed
  qed
qed

lemma routine_iterations:
  "list_all routine (concat (map (\<lambda>i. iteration ct n (f i) (g i) (h i)) xs))"
  by (induction xs) (simp_all add: routine_iteration)

lemma routine_sent:
  "list_all routine t \<Longrightarrow> Error m \<notin> set (sent t) \<and> Completed m \<notin> set (sent t)"
  by (induction t rule: sent.induct) auto

lemma sent_append: "sent (s @ t) = sent s @ sent t"
  by (induction s rule: sent.induct) simp_all

lemma sent_iteration:
  "sent (iteration ct n idx ch arts) =
     [Processing (idx + 1) n, ChapterComplete (snd (snd (snd (snd arts)))) (title ch)]"
  by (simp add: iteration_def split: prod.splits)

lemma sent_iterations:
  "sent (concat (map (\<lambda>i. iteration ct n (f i) (g i) (h i)) xs)) =
     concat (map (\<lambda>i. [Processing (f i + 1) n,
                        ChapterComplete (snd (snd (snd (snd (h i))))) (title (g i))]) xs)"
  by (induction xs) (simp_all add: sent_append sent_iteration)

text \<open>How the try block of the streaming handler can end.\<close>

lemma stream_chapters_Inr:
  assumes "stream_chapters svc db task_id ct s e w = (Inr u, t, w')"
  shows "\<exists>task arts.
           db task_id = Some task \<and>
           length arts = length (py_slice (stored_chapters task) s (e + 1)) \<and>
           t = concat (map (\<lambda>i. iteration ct (length (py_slice (stored_chapters task) s (e + 1)))
                                  i (py_slice (stored_chapters task) s (e + 1) ! i) (arts ! i))
                         [0..<length (py_slice (stored_chapters task) s (e + 1))])
               @ [WsSend (Completed ''All chapters processed successfully'')]"
proof -
  from assms obtain task where task: "db task_id = Some task"
    by (auto simp: stream_chapters_def get_chapters_def split: option.splits)
  define sel where "sel = py_slice (stored_chapters task) s (e + 1)"
  from assms task obtain t0 where
    loop: "process_chapters svc ct (length sel) 0 sel w = (Inr (), t0, w')" and
    t: "t = t0 @ [WsSend (Completed ''All chapters processed successfully'')]"
    by (auto simp: stream_chapters_def get_chapters_def sel_def Let_def
             split: prod.splits sum.splits)
  from process_chapters_Inr [OF loop] obtain arts where
    "length arts = length sel"
    "t0 = concat (map (\<lambda>i. iteration ct (length sel) (0 + i) (sel ! i) (arts ! i)) [0..<length sel])"
    by blast
  with task t show ?thesis unfolding sel_def by auto
qed

lemma stream_chapters_Inl:
  assumes "stream_chapters svc db task_id ct s e w = (Inl err, t, w')"
  shows "(db task_id = None \<and> err = NotFound task_id \<and> t = [] \<and> w' = w) \<or>
         (\<exists>pre c. t = pre @ [Call c (Inl err)] \<and> list_all routine pre)"
proof (cases "db task_id")
  case None
  with assms show ?thesis by (simp add: stream_chapters_def get_chapters_def)
next
  case (Some task)
  define sel where "sel = py_slice (stored_chapters task) s (e + 1)"
  from assms Some have "process_chapters svc ct (length sel) 0 sel w = (Inl err, t, w')"
    by (auto simp: stream_chapters_def get_chapters_def sel_def Let_def
             split: prod.splits sum.splits)
  from process_chapters_Inl [OF this] show ?thesis by blast
qed

lemma py_slice_length_inclusive:
  assumes "0 \<le> s" and "s \<le> e + 1" and "e < int (length xs)"
  shows "int (length (py_slice xs s (e + 1))) = e - s + 1"
  using assms by (auto simp: py_slice_def Let_def)

lemma py_slice_length_clamped:
  assumes "0 \<le> s" and "- 1 \<le> e"
  shows "int (length (py_slice xs s (e + 1))) = max 0 (min (int (length xs)) (e + 1) - s)"
  using assms by (auto simp: py_slice_def Let_def)

lemma no_failed_stream:
  assumes "task_id \<noteq> []"
    and "\<not> list_ex failed (fst (websocket_processing svc db task_id ct s e w))"
  shows "\<exists>u t w'. stream_chapters svc db task_id ct s e w = (Inr u, t, w') \<or>
                  (stream_chapters svc db task_id ct s e w = (Inl (NotFound task_id), [], w) \<and>
                   db task_id = None)"
proof (cases "stream_chapters svc db task_id ct s e w")
  case (fields r t w')
  show ?thesis
  proof (cases r)
    case (Inr u)
    with fields show ?thesis by simp
  next
    case (Inl err)
    from stream_chapters_Inl [of svc db task_id ct s e w err t w'] fields Inl
    consider "db task_id = None \<and> err = NotFound task_id \<and> t = [] \<and> w' = w"
      | pre c where "t = pre @ [Call c (Inl err)]" by auto
    then show ?thesis
    proof cases
      case 1
      with fields Inl show ?thesis by simp
    next
      case 2
      with fields Inl assms have False
        by (simp add: websocket_processing_def list_ex_iff)
      then show ?thesis ..
    qed
  qed
qed

text \<open>
  Claim C1, as amended. For a non-empty task id with a stored chapter list, if
  every stage call of the session returns, the client receives exactly one
  (processing, chapter\_complete) pair per chapter of the Python slice
  \<^verbatim>\<open>chapters[start_chapter:end_chapter+1]\<close>, the processing messages numbered
  1, 2, ... in order, then exactly one completed message and nothing else. The
  number of pairs is \<^verbatim>\<open>end_chapter - start_chapter + 1\<close> whenever the range
  lies inside the list: \<open>0 \<le> start_chapter \<le> end_chapter + 1\<close> and
  \<open>end_chapter < n\<close> for \<open>n\<close> stored chapters.
\<close>
theorem stream_events_when_stages_succeed:
  assumes "task_id \<noteq> []" and "db task_id = Some task"
    and "\<not> list_ex failed (fst (websocket_processing svc db task_id content_type start_chapter end_chapter w))"
  defines "selected \<equiv> py_slice (stored_chapters task) start_chapter (end_chapter + 1)"
  shows "\<exists>videos. length videos = length selected \<and>
           sent (fst (websocket_processing svc db task_id content_type start_chapter end_chapter w)) =
             concat (map (\<lambda>i. [Processing (i + 1) (length selected),
                                ChapterComplete (videos ! i) (title (selected ! i))])
                       [0..<length selected])
             @ [Completed ''All chapters processed successfully''] \<and>
           (0 \<le> start_chapter \<and> start_chapter \<le> end_chapter + 1 \<and>
            end_chapter < int (length (stored_chapters task)) \<longrightarrow>
              int (length selected) = end_chapter - start_chapter + 1)"
proof -
  from no_failed_stream [OF assms(1) assms(3)] assms(2) obtain u t w' where
    st: "stream_chapters svc db task_id content_type start_chapter end_chapter w = (Inr u, t, w')"
    by auto
  from stream_chapters_Inr [OF st] assms(2) obtain arts where
    l: "length arts = length selected" and
    t: "t = concat (map (\<lambda>i. iteration content_type (length selected) i (selected ! i) (arts ! i))
                      [0..<length selected])
            @ [WsSend (Completed ''All chapters processed successfully'')]"
    unfolding selected_def by auto
  let ?videos = "map (\<lambda>a. snd (snd (snd (snd a)))) arts"
  have ev: "sent (fst (websocket_processing svc db task_id content_type start_chapter end_chapter w)) =
          concat (map (\<lambda>i. [Processing (i + 1) (length selected),
                             ChapterComplete (snd (snd (snd (snd (arts ! i))))) (title (selected ! i))])
                    [0..<length selected])
          @ [Completed ''All chapters processed successfully'']"
    using st t assms(1) by (simp add: websocket_processing_def sent_append sent_iterations)
  have meq: "map (\<lambda>i. [Processing (i + 1) (length selected),
                   ChapterComplete (snd (snd (snd (snd (arts ! i))))) (title (selected ! i))])
            [0..<length selected] =
        map (\<lambda>i. [Processing (i + 1) (length selected),
                   ChapterComplete (?videos ! i) (title (selected ! i))])
            [0..<length selected]"
    using l by (intro map_cong) simp_all
  have "sent (fst (websocket_processing svc db task_id content_type start_chapter end_chapter w)) =
          concat (map (\<lambda>i. [Processing (i + 1) (length selected),
                             ChapterComplete (?videos ! i) (title (selected ! i))])
                    [0..<length selected])
          @ [Completed ''All chapters processed successfully'']"
    by (simp only: ev meq)
  moreover have "length ?videos = length selected" using l by simp
  moreover have "0 \<le> start_chapter \<and> start_chapter \<le> end_chapter + 1 \<and>
            end_chapter < int (length (stored_chapters task)) \<longrightarrow>
              int (length selected) = end_chapter - start_chapter + 1"
    unfolding selected_def by (auto intro: py_slice_length_inclusive)
  ultimately show ?thesis by blast
qed

text \<open>
  The specification's example: the range [0, 1] of the three chapters gives two
  pairs, for Intro then Body, and the completed message.
\<close>

theorem stream_events_witness:
  "''t1'' \<noteq> [] \<and>
   demo_store ''t1'' =
     Some \<lparr>stored_filename = ''doc.txt'',
           stored_chapters = [\<lparr>title = ''Intro''\<rparr>, \<lparr>title = ''Body''\<rparr>, \<lparr>title = ''Conclusion''\<rparr>]\<rparr> \<and>
   \<not> list_ex failed (fst (websocket_processing demo_services demo_store ''t1'' ''KeyMoment'' 0 1 (demo_world 0))) \<and>
   (0::int) \<le> 0 \<and> (0::int) \<le> 1 + 1 \<and>
   (1::int) < int (length [\<lparr>title = ''Intro''\<rparr>, \<lparr>title = ''Body''\<rparr>, \<lparr>title = ''Conclusion''\<rparr>]) \<and>
   (\<exists>videos. length videos = 2 \<and>
      sent (fst (websocket_processing demo_services demo_store ''t1'' ''KeyMoment'' 0 1 (demo_world 0))) =
        [Processing 1 2, ChapterComplete (videos ! 0) ''Intro'',
         Processing 2 2, ChapterComplete (videos ! 1) ''Body'',
         Completed ''All chapters processed successfully''] \<and>
      int (length (py_slice [\<lparr>title = ''Intro''\<rparr>, \<lparr>title = ''Body''\<rparr>, \<lparr>title = ''Conclusion''\<rparr>]
                     0 (1 + 1))) = 1 - 0 + 1)"
proof -
  have h1: "''t1'' \<noteq> []" by simp
  have h2: "demo_store ''t1'' =
     Some \<lparr>stored_filename = ''doc.txt'',
           stored_chapters = [\<lparr>title = ''Intro''\<rparr>, \<lparr>title = ''Body''\<rparr>, \<lparr>title = ''Conclusion''\<rparr>]\<rparr>"
    by (simp add: demo_store_def store_task_def)
  have h3: "\<not> list_ex failed (fst (websocket_processing demo_services demo_store ''t1'' ''KeyMoment'' 0 1 (demo_world 0)))"
    by (simp add: demo_defs)
  have h4: "(0::int) \<le> 0" "(0::int) \<le> 1 + 1"
    "(1::int) < int (length [\<lparr>title = ''Intro''\<rparr>, \<lparr>title = ''Body''\<rparr>, \<lparr>title = ''Conclusion''\<rparr>])"
    by simp_all
  from stream_events_when_stages_succeed [OF h1 h2 h3] h4
  obtain videos :: "string list" where
    v: "length videos =
          length (py_slice [\<lparr>title = ''Intro''\<rparr>, \<lparr>title = ''Body''\<rparr>, \<lparr>title = ''Conclusion''\<rparr>]
                    0 (1 + 1))"
       "sent (fst (websocket_processing demo_services demo_store ''t1'' ''KeyMoment'' 0 1 (demo_world 0))) =
          concat (map (\<lambda>i. [Processing (i + 1)
                               (length (py_slice [\<lparr>title = ''Intro''\<rparr>, \<lparr>title = ''Body''\<rparr>,
                                                  \<lparr>title = ''Conclusion''\<rparr>] 0 (1 + 1))),
                             ChapterComplete (videos ! i)
                               (title (py_slice [\<lparr>title = ''Intro''\<rparr>, \<lparr>title = ''Body''\<rparr>,
                                                 \<lparr>title = ''Conclusion''\<rparr>] 0 (1 + 1) ! i))])
                    [0..<length (py_slice [\<lparr>title = ''Intro''\<rparr>, \<lparr>title = ''Body''\<rparr>,
                                           \<lparr>title = ''Conclusion''\<rparr>] 0 (1 + 1))])
          @ [Completed ''All chapters processed successfully'']"
       "int (length (py_slice [\<lparr>title = ''Intro''\<rparr>, \<lparr>title = ''Body''\<rparr>, \<lparr>title = ''Conclusion''\<rparr>]
                     0 (1 + 1))) = 1 - 0 + 1"
    by auto
  have sl: "py_slice [\<lparr>title = ''Intro''\<rparr>, \<lparr>title = ''Body''\<rparr>, \<lparr>title = ''Conclusion''\<rparr>] 0 (1 + 1)
              = [\<lparr>title = ''Intro''\<rparr>, \<lparr>title = ''Body''\<rparr>]"
    by (simp add: py_slice_def)
  have c: "length videos = 2 \<and>
      sent (fst (websocket_processing demo_services demo_store ''t1'' ''KeyMoment'' 0 1 (demo_world 0))) =
        [Processing 1 2, ChapterComplete (videos ! 0) ''Intro'',
         Processing 2 2, ChapterComplete (videos ! 1) ''Body'',
         Completed ''All chapters processed successfully''] \<and>
      int (length (py_slice [\<lparr>title = ''Intro''\<rparr>, \<lparr>title = ''Body''\<rparr>, \<lparr>title = ''Conclusion''\<rparr>]
                     0 (1 + 1))) = 1 - 0 + 1"
    using v unfolding sl by (simp add: upt_conv_Cons eval_nat_numeral)
  have e: "\<exists>videos. length videos = 2 \<and>
      sent (fst (websocket_processing demo_services demo_store ''t1'' ''KeyMoment'' 0 1 (demo_world 0))) =
        [Processing 1 2, ChapterComplete (videos ! 0) ''Intro'',
         Processing 2 2, ChapterComplete (videos ! 1) ''Body'',
         Completed ''All chapters processed successfully''] \<and>
      int (length (py_slice [\<lparr>title = ''Intro''\<rparr>, \<lparr>title = ''Body''\<rparr>, \<lparr>title = ''Conclusion''\<rparr>]
                     0 (1 + 1))) = 1 - 0 + 1"
    using c by blast
  show ?thesis by (intro conjI h1 h2 h3 h4 e)
qed

text \<open>
  Claim C1 as stated fails: with the default range [0, 3] and three stored
  chapters, every stage returning, there are three processing messages, not
  \<open>3 - 0 + 1\<close>.
\<close>

theorem inclusive_range_count_counterexample:
  "''t1'' \<noteq> [] \<and>
   get_chapters demo_store ''t1'' =
     Inr [\<lparr>title = ''Intro''\<rparr>, \<lparr>title = ''Body''\<rparr>, \<lparr>title = ''Conclusion''\<rparr>] \<and>
   \<not> list_ex failed (fst (websocket_processing demo_services demo_store ''t1'' ''KeyMoment'' 0 3 (demo_world 0))) \<and>
   int (length (filter is_processing
      (sent (fst (websocket_processing demo_services demo_store ''t1'' ''KeyMoment'' 0 3 (demo_world 0))))))
     \<noteq> 3 - 0 + 1"
  by (simp add: demo_defs)

lemma py_slice_beyond:
  assumes "int (length xs) \<le> s"
  shows "py_slice xs s stop = []"
  using assms by (auto simp: py_slice_def Let_def)

text \<open>
  Claim C5. With an empty task id the handler does one thing: it closes the
  socket with code 4003 and reason "Invalid task\_id". The socket is never
  accepted and no message is sent. Emptiness is the only validity test the
  handler makes on the task id.
\<close>
theorem empty_task_id_closes_4003:
  "websocket_processing svc db [] content_type start_chapter end_chapter w =
     ([WsClose (Some (4003, ''Invalid task_id''))], w) \<and>
   sent (fst (websocket_processing svc db [] content_type start_chapter end_chapter w)) = [] \<and>
   WsAccept \<notin> set (fst (websocket_processing svc db [] content_type start_chapter end_chapter w))"
  by (simp add: websocket_processing_def)

text \<open>
  Claim C4. For a non-empty task id with no stored task, the handler accepts the
  socket, the lookup fails, the handler sends exactly one error message carrying
  the text of the lookup's failure, and closes the socket. No processing,
  chapter\_complete or completed message is sent, and no stage is called.
\<close>
theorem unknown_task_single_error:
  assumes "task_id \<noteq> []" and "db task_id = None"
  shows "\<exists>e. get_chapters db task_id = Inl e \<and>
           websocket_processing svc db task_id content_type start_chapter end_chapter w =
             ([WsAccept, WsSend (Error (str_of e)), WsClose None], w) \<and>
           sent (fst (websocket_processing svc db task_id content_type start_chapter end_chapter w)) =
             [Error (str_of e)]"
  using assms by (simp add: websocket_processing_def stream_chapters_def get_chapters_def)

text \<open>
  An unknown task id in the scenario.
\<close>

theorem unknown_task_witness:
  "''t2'' \<noteq> [] \<and> demo_store ''t2'' = None \<and>
   websocket_processing demo_services demo_store ''t2'' ''KeyMoment'' 0 3 (demo_world 0) =
     ([WsAccept, WsSend (Error ''t2''), WsClose None], demo_world 0)"
proof -
  have h1: "''t2'' \<noteq> []" by simp
  have h2: "demo_store ''t2'' = None" by (simp add: demo_store_def store_task_def)
  from unknown_task_single_error
    [of "''t2''" demo_store demo_services "''KeyMoment''" 0 3 "demo_world 0", OF h1 h2]
  have "websocket_processing demo_services demo_store ''t2'' ''KeyMoment'' 0 3 (demo_world 0) =
     ([WsAccept, WsSend (Error ''t2''), WsClose None], demo_world 0)"
    by (auto simp: get_chapters_def h2)
  with h1 h2 show ?thesis by blast
qed

text \<open>The stages as the collaborators run them, and the loop.\<close>

lemma process_chapter_returns:
  assumes "stages_return svc ct ch w arts w'"
  shows "process_chapter svc ct n idx ch w = (Inr (), iteration ct n idx ch arts, w')"
  using assms
  by (auto simp: stages_return_def process_chapter_def iteration_def split: prod.splits)

lemma process_chapter_raises:
  assumes "stage_raises svc ct ch w err calls w'"
  shows "process_chapter svc ct n idx ch w =
           (Inl err, WsSend (Processing (idx + 1) n) # calls, w')"
  using assms unfolding stage_raises_def
  by (elim disjE exE conjE) (simp_all add: process_chapter_def)

lemma process_chapter_Inr_tied:
  assumes "process_chapter svc ct n idx ch w = (Inr u, t, w')"
  shows "\<exists>arts. stages_return svc ct ch w arts w' \<and> t = iteration ct n idx ch arts"
  using assms
  by (auto simp: process_chapter_def stages_return_def iteration_def Let_def
           split: prod.splits sum.splits)

lemma process_chapter_Inl_tied:
  assumes "process_chapter svc ct n idx ch w = (Inl err, t, w')"
  shows "\<exists>calls. stage_raises svc ct ch w err calls w' \<and>
                 t = WsSend (Processing (idx + 1) n) # calls"
  using assms
  by (auto simp: process_chapter_def stage_raises_def Let_def
           split: prod.splits sum.splits)

lemma chapters_return_length:
  "chapters_return svc ct chs w arts w' \<Longrightarrow> length arts = length chs"
  by (induction svc ct chs w arts w' rule: chapters_return.induct) auto

lemma process_chapters_return:
  "chapters_return svc ct chs w arts w' \<Longrightarrow>
     process_chapters svc ct n idx chs w =
       (Inr (),
        concat (map (\<lambda>i. iteration ct n (idx + i) (chs ! i) (arts ! i)) [0..<length chs]),
        w')"
proof (induction chs arbitrary: idx w arts)
  case Nil
  then show ?case by simp
next
  case (Cons ch chs)
  from Cons.prems obtain a rest w1 where
    arts: "arts = a # rest" and
    a: "stages_return svc ct ch w a w1" and
    r: "chapters_return svc ct chs w1 rest w'"
    by (cases arts) auto
  from Cons.IH [OF r, of "Suc idx"] process_chapter_returns [OF a, of n idx]
  show ?case
    by (simp add: arts map_upt_Suc del: upt_Suc)
qed

lemma process_chapters_raise:
  "chapters_return svc ct pre w arts w1 \<Longrightarrow> stage_raises svc ct ch w1 err calls w2 \<Longrightarrow>
     process_chapters svc ct n idx (pre @ ch # post) w =
       (Inl err,
        concat (map (\<lambda>i. iteration ct n (idx + i) (pre ! i) (arts ! i)) [0..<length pre]) @
        WsSend (Processing (idx + length pre + 1) n) # calls,
        w2)"
proof (induction pre arbitrary: idx w arts)
  case Nil
  then show ?case by (simp add: process_chapter_raises)
next
  case (Cons p pre)
  from Cons.prems(1) obtain a rest w0 where
    arts: "arts = a # rest" and
    a: "stages_return svc ct p w a w0" and
    r: "chapters_return svc ct pre w0 rest w1"
    by (cases arts) auto
  from Cons.IH [OF r Cons.prems(2), of "Suc idx"] process_chapter_returns [OF a, of n idx]
  show ?case
    by (simp add: arts map_upt_Suc del: upt_Suc)
qed

lemma process_chapters_Inr_tied:
  "process_chapters svc ct n idx chs w = (Inr u, t, w') \<Longrightarrow>
     \<exists>arts. chapters_return svc ct chs w arts w' \<and>
       t = concat (map (\<lambda>i. iteration ct n (idx + i) (chs ! i) (arts ! i)) [0..<length chs])"
proof (induction chs arbitrary: idx w t)
  case Nil
  then show ?case by simp
next
  case (Cons ch chs)
  from Cons.prems obtain t1 w1 t2 where
    b: "process_chapter svc ct n idx ch w = (Inr (), t1, w1)" and
    r: "process_chapters svc ct n (Suc idx) chs w1 = (Inr u, t2, w')" and
    t: "t = t1 @ t2"
    by (auto split: prod.splits sum.splits)
  from process_chapter_Inr_tied [OF b] obtain a where
    a: "stages_return svc ct ch w a w1" "t1 = iteration ct n idx ch a" by blast
  from Cons.IH [OF r] obtain arts where
    c: "chapters_return svc ct chs w1 arts w'"
       "t2 = concat (map (\<lambda>i. iteration ct n (Suc idx + i) (chs ! i) (arts ! i)) [0..<length chs])"
    by blast
  have "chapters_return svc ct (ch # chs) w (a # arts) w'"
    using a(1) c(1) by auto
  moreover have "t = concat (map (\<lambda>i. iteration ct n (idx + i) ((ch # chs) ! i) ((a # arts) ! i))
                     [0..<length (ch # chs)])"
    using t a(2) c(2) by (simp add: map_upt_Suc del: upt_Suc)
  ultimately show ?case by blast
qed

lemma sent_calls: "stage_raises svc ct ch w err calls w' \<Longrightarrow> sent calls = []"
  unfolding stage_raises_def by (elim disjE exE conjE) simp_all

lemma process_chapters_Inl_tied:
  "process_chapters svc ct n idx chs w = (Inl err, t, w') \<Longrightarrow>
     \<exists>pre ch post arts w1 calls.
       chs = pre @ ch # post \<and> chapters_return svc ct pre w arts w1 \<and>
       stage_raises svc ct ch w1 err calls w'"
proof (induction chs arbitrary: idx w t)
  case Nil
  then show ?case by simp
next
  case (Cons c chs)
  show ?case
  proof (cases "process_chapter svc ct n idx c w")
    case (fields r t1 w1)
    show ?thesis
    proof (cases r)
      case (Inl e1)
      with fields Cons.prems have "process_chapter svc ct n idx c w = (Inl err, t, w')"
        by simp
      from process_chapter_Inl_tied [OF this] obtain calls where
        "stage_raises svc ct c w err calls w'" by blast
      moreover have "c # chs = [] @ c # chs" by simp
      moreover have "chapters_return svc ct [] w [] w" by simp
      ultimately show ?thesis by blast
    next
      case (Inr u1)
      with fields Cons.prems obtain t2 where
        r: "process_chapters svc ct n (Suc idx) chs w1 = (Inl err, t2, w')"
        by (auto split: prod.splits)
      from fields Inr process_chapter_Inr_tied [of svc ct n idx c w u1 t1 w1]
      obtain a where a: "stages_return svc ct c w a w1" by auto
      from Cons.IH [OF r] obtain pre ch post arts w2 calls where
        s: "chs = pre @ ch # post" "chapters_return svc ct pre w1 arts w2"
           "stage_raises svc ct ch w2 err calls w'"
        by blast
      have "c # chs = (c # pre) @ ch # post" using s(1) by simp
      moreover have "chapters_return svc ct (c # pre) w (a # arts) w2"
        using a s(2) by auto
      ultimately show ?thesis using s(3) by blast
    qed
  qed
qed

text \<open>
  Claim C3. Every session ends with a close of the socket, and that close is the
  only one. If the stages return for the chapters before some chapter of the
  selected range and a stage raises for that chapter, then the handler does
  exactly this: the iterations of the chapters before, the processing message
  of the failing chapter, the calls up to and including the raising one, one
  error message with the text of that exception, and the close; it ends in the
  world the raising call left. So the client receives the pairs of the
  chapters before, the processing message of the failing chapter and the one
  error message; no completed message is sent and no stage is called for a
  later chapter. Conversely, a failed call in the session's trace is followed
  by exactly the error message with its text and the close, everything before
  it is routine, and it is a stage that raised in this way.
\<close>

theorem stage_failure_aborts_session:
  fixes svc :: "('v, 'x) services" and db :: task_store and task_id content_type :: string
    and start_chapter end_chapter :: int and w :: "'x world"
  defines "session \<equiv>
             websocket_processing svc db task_id content_type start_chapter end_chapter w"
  shows "(\<exists>body k. fst session = body @ [WsClose k] \<and> (\<forall>k'. WsClose k' \<notin> set body)) \<and>
         (task_id \<noteq> [] \<and> db task_id = Some task \<and>
          py_slice (stored_chapters task) start_chapter (end_chapter + 1) = pre @ failing # post \<and>
          chapters_return svc content_type pre w arts w_before \<and>
          stage_raises svc content_type failing w_before err calls w_after \<longrightarrow>
            session =
              (WsAccept #
               concat (map (\<lambda>i. iteration content_type (length (pre @ failing # post)) i
                                   (pre ! i) (arts ! i))
                         [0..<length pre]) @
               WsSend (Processing (length pre + 1) (length (pre @ failing # post))) # calls @
               [WsSend (Error (str_of err)), WsClose None],
               w_after) \<and>
            sent (fst session) =
              concat (map (\<lambda>i. case arts ! i of
                             (script, audio_path, subtitles, image_path, video_path) \<Rightarrow>
                               [Processing (i + 1) (length (pre @ failing # post)),
                                ChapterComplete video_path (title (pre ! i))])
                        [0..<length pre]) @
              [Processing (length pre + 1) (length (pre @ failing # post)),
               Error (str_of err)]) \<and>
         (Call c (Inl err) \<in> set (fst session) \<longrightarrow>
            (\<exists>pre. fst session =
                      WsAccept # pre @ [Call c (Inl err), WsSend (Error (str_of err)), WsClose None] \<and>
                    list_all routine pre \<and>
                    (\<forall>m. Error m \<notin> set (sent pre) \<and> Completed m \<notin> set (sent pre))) \<and>
            (\<exists>task pre failing post arts w_before calls.
               db task_id = Some task \<and>
               py_slice (stored_chapters task) start_chapter (end_chapter + 1) =
                 pre @ failing # post \<and>
               chapters_return svc content_type pre w arts w_before \<and>
               stage_raises svc content_type failing w_before err calls (snd session)))"
proof -
  have closing: "\<exists>body k. fst session = body @ [WsClose k] \<and> (\<forall>k'. WsClose k' \<notin> set body)"
  proof (cases "task_id = []")
    case True
    then show ?thesis by (simp add: session_def websocket_processing_def)
  next
    case False
    show ?thesis
    proof (cases "stream_chapters svc db task_id content_type start_chapter end_chapter w")
      case (fields r t w')
      show ?thesis
      proof (cases r)
        case (Inr u)
        from stream_chapters_Inr [of svc db task_id content_type start_chapter end_chapter w u t w']
          fields Inr
        obtain body where t: "t = body @ [WsSend (Completed ''All chapters processed successfully'')]"
          and rb: "list_all routine body"
          by (auto simp: routine_iterations)
        have tr: "fst session =
                    (WsAccept # body @ [WsSend (Completed ''All chapters processed successfully'')])
                    @ [WsClose None]"
          using False fields Inr t by (simp add: session_def websocket_processing_def)
        have nc: "\<forall>k'. WsClose k' \<notin>
                    set (WsAccept # body @ [WsSend (Completed ''All chapters processed successfully'')])"
          using rb by (auto simp: list_all_iff)
        from tr nc show ?thesis by blast
      next
        case (Inl e1)
        from stream_chapters_Inl [of svc db task_id content_type start_chapter end_chapter w e1 t w']
          fields Inl
        consider "t = []" | p c1 where "t = p @ [Call c1 (Inl e1)]" "list_all routine p"
          by auto
        then show ?thesis
        proof cases
          case 1
          with False fields Inl show ?thesis by (simp add: session_def websocket_processing_def)
        next
          case 2
          have tr': "fst session =
                      (WsAccept # p @ [Call c1 (Inl e1), WsSend (Error (str_of e1))]) @ [WsClose None]"
            using False fields Inl 2 by (simp add: session_def websocket_processing_def)
          have nc: "\<forall>k'. WsClose k' \<notin>
                      set (WsAccept # p @ [Call c1 (Inl e1), WsSend (Error (str_of e1))])"
            using 2(2) by (auto simp: list_all_iff)
          from tr' nc show ?thesis by blast
        qed
      qed
    qed
  qed
  have raised: "task_id \<noteq> [] \<and> db task_id = Some task \<and>
          py_slice (stored_chapters task) start_chapter (end_chapter + 1) = pre @ failing # post \<and>
          chapters_return svc content_type pre w arts w_before \<and>
          stage_raises svc content_type failing w_before err calls w_after \<longrightarrow>
            session =
              (WsAccept #
               concat (map (\<lambda>i. iteration content_type (length (pre @ failing # post)) i
                                   (pre ! i) (arts ! i))
                         [0..<length pre]) @
               WsSend (Processing (length pre + 1) (length (pre @ failing # post))) # calls @
               [WsSend (Error (str_of err)), WsClose None],
               w_after) \<and>
            sent (fst session) =
              concat (map (\<lambda>i. case arts ! i of
                             (script, audio_path, subtitles, image_path, video_path) \<Rightarrow>
                               [Processing (i + 1) (length (pre @ failing # post)),
                                ChapterComplete video_path (title (pre ! i))])
                        [0..<length pre]) @
              [Processing (length pre + 1) (length (pre @ failing # post)),
               Error (str_of err)]"
  proof (intro impI, elim conjE)
    assume a: "task_id \<noteq> []" "db task_id = Some task"
      "py_slice (stored_chapters task) start_chapter (end_chapter + 1) = pre @ failing # post"
      "chapters_return svc content_type pre w arts w_before"
      "stage_raises svc content_type failing w_before err calls w_after"
    from process_chapters_raise [OF a(4) a(5), of "length (pre @ failing # post)" 0 post]
    have loop: "process_chapters svc content_type (length (pre @ failing # post)) 0
                  (pre @ failing # post) w =
                (Inl err,
                 concat (map (\<lambda>i. iteration content_type (length (pre @ failing # post)) i
                                     (pre ! i) (arts ! i))
                           [0..<length pre]) @
                 WsSend (Processing (length pre + 1) (length (pre @ failing # post))) # calls,
                 w_after)"
      by simp
    have s1: "session =
              (WsAccept #
               concat (map (\<lambda>i. iteration content_type (length (pre @ failing # post)) i
                                   (pre ! i) (arts ! i))
                         [0..<length pre]) @
               WsSend (Processing (length pre + 1) (length (pre @ failing # post))) # calls @
               [WsSend (Error (str_of err)), WsClose None],
               w_after)"
      using a(1,2,3) loop
      by (simp add: session_def websocket_processing_def stream_chapters_def get_chapters_def
            Let_def del: process_chapters.simps length_append)
    have s2: "sent (fst session) =
              concat (map (\<lambda>i. case arts ! i of
                             (script, audio_path, subtitles, image_path, video_path) \<Rightarrow>
                               [Processing (i + 1) (length (pre @ failing # post)),
                                ChapterComplete video_path (title (pre ! i))])
                        [0..<length pre]) @
              [Processing (length pre + 1) (length (pre @ failing # post)),
               Error (str_of err)]"
      unfolding s1
      by (simp add: sent_append sent_iterations sent_calls [OF a(5)] case_prod_beta
            del: length_append)
    from s1 s2 show "session =
              (WsAccept #
               concat (map (\<lambda>i. iteration content_type (length (pre @ failing # post)) i
                                   (pre ! i) (arts ! i))
                         [0..<length pre]) @
               WsSend (Processing (length pre + 1) (length (pre @ failing # post))) # calls @
               [WsSend (Error (str_of err)), WsClose None],
               w_after) \<and>
            sent (fst session) =
              concat (map (\<lambda>i. case arts ! i of
                             (script, audio_path, subtitles, image_path, video_path) \<Rightarrow>
                               [Processing (i + 1) (length (pre @ failing # post)),
                                ChapterComplete video_path (title (pre ! i))])
                        [0..<length pre]) @
              [Processing (length pre + 1) (length (pre @ failing # post)),
               Error (str_of err)]"
      by (rule conjI)
  qed
  have recorded: "Call c (Inl err) \<in> set (fst session) \<longrightarrow>
            (\<exists>pre. fst session =
                      WsAccept # pre @ [Call c (Inl err), WsSend (Error (str_of err)), WsClose None] \<and>
                    list_all routine pre \<and>
                    (\<forall>m. Error m \<notin> set (sent pre) \<and> Completed m \<notin> set (sent pre))) \<and>
            (\<exists>task pre failing post arts w_before calls.
               db task_id = Some task \<and>
               py_slice (stored_chapters task) start_chapter (end_chapter + 1) =
                 pre @ failing # post \<and>
               chapters_return svc content_type pre w arts w_before \<and>
               stage_raises svc content_type failing w_before err calls (snd session))"
  proof
    assume m: "Call c (Inl err) \<in> set (fst session)"
    have ne: "task_id \<noteq> []"
      using m by (auto simp: session_def websocket_processing_def)
    obtain r t w' where
      fields: "stream_chapters svc db task_id content_type start_chapter end_chapter w = (r, t, w')"
      by (cases "stream_chapters svc db task_id content_type start_chapter end_chapter w")
    have "\<exists>e1. r = Inl e1"
    proof (cases r)
      case (Inr u)
      from stream_chapters_Inr [of svc db task_id content_type start_chapter end_chapter w u t w']
        fields Inr
      obtain body where t: "t = body @ [WsSend (Completed ''All chapters processed successfully'')]"
        and rb: "list_all routine body"
        by (auto simp: routine_iterations)
      have "Call c (Inl err) \<notin> set (fst session)"
        using ne fields Inr t rb
        by (auto simp: session_def websocket_processing_def list_all_iff)
      with m show ?thesis by simp
    next
      case (Inl e1)
      then show ?thesis by blast
    qed
    then obtain e1 where Inl: "r = Inl e1" by blast
    from stream_chapters_Inl [of svc db task_id content_type start_chapter end_chapter w e1 t w']
      fields Inl
    consider "t = []" | p c1 where "t = p @ [Call c1 (Inl e1)]" "list_all routine p"
      by auto
    then have "\<exists>p. t = p @ [Call c (Inl err)] \<and> list_all routine p \<and> e1 = err"
    proof cases
      case 1
      with ne fields Inl m show ?thesis
        by (simp add: session_def websocket_processing_def)
    next
      case 2
      have "c = c1 \<and> err = e1"
        using ne fields Inl 2 m
        by (auto simp: session_def websocket_processing_def list_all_iff)
      with 2 show ?thesis by blast
    qed
    then obtain p where p: "t = p @ [Call c (Inl err)]" "list_all routine p" "e1 = err"
      by blast
    have tr: "fst session =
                WsAccept # p @ [Call c (Inl err), WsSend (Error (str_of err)), WsClose None]"
      and w': "snd session = w'"
      using ne fields Inl p by (simp_all add: session_def websocket_processing_def)
    from tr p(2) routine_sent [OF p(2)]
    have first: "\<exists>pre. fst session =
                      WsAccept # pre @ [Call c (Inl err), WsSend (Error (str_of err)), WsClose None] \<and>
                    list_all routine pre \<and>
                    (\<forall>m. Error m \<notin> set (sent pre) \<and> Completed m \<notin> set (sent pre))"
      by blast
    from fields Inl p(1) obtain task where task: "db task_id = Some task"
      by (cases "db task_id") (auto simp: stream_chapters_def get_chapters_def)
    define sel where "sel = py_slice (stored_chapters task) start_chapter (end_chapter + 1)"
    from fields Inl p(3) task
    have "process_chapters svc content_type (length sel) 0 sel w = (Inl err, t, w')"
      by (auto simp: stream_chapters_def get_chapters_def sel_def Let_def
               split: prod.splits sum.splits)
    from process_chapters_Inl_tied [OF this] w' task
    have second: "\<exists>task pre failing post arts w_before calls.
               db task_id = Some task \<and>
               py_slice (stored_chapters task) start_chapter (end_chapter + 1) =
                 pre @ failing # post \<and>
               chapters_return svc content_type pre w arts w_before \<and>
               stage_raises svc content_type failing w_before err calls (snd session)"
      unfolding sel_def by blast
    from first second show "(\<exists>pre. fst session =
                      WsAccept # pre @ [Call c (Inl err), WsSend (Error (str_of err)), WsClose None] \<and>
                    list_all routine pre \<and>
                    (\<forall>m. Error m \<notin> set (sent pre) \<and> Completed m \<notin> set (sent pre))) \<and>
            (\<exists>task pre failing post arts w_before calls.
               db task_id = Some task \<and>
               py_slice (stored_chapters task) start_chapter (end_chapter + 1) =
                 pre @ failing # post \<and>
               chapters_return svc content_type pre w arts w_before \<and>
               stage_raises svc content_type failing w_before err calls (snd session))"
      by (rule conjI)
  qed
  from closing raised recorded show ?thesis by (intro conjI)
qed

text \<open>
  Voice synthesis fails on the second chapter: the first chapter completes, the
  second is announced, then the error message and the close.
\<close>

theorem stage_failure_witness:
  "''t1'' \<noteq> [] \<and>
   demo_store ''t1'' =
     Some \<lparr>stored_filename = ''doc.txt'',
           stored_chapters = [\<lparr>title = ''Intro''\<rparr>, \<lparr>title = ''Body''\<rparr>, \<lparr>title = ''Conclusion''\<rparr>]\<rparr> \<and>
   py_slice [\<lparr>title = ''Intro''\<rparr>, \<lparr>title = ''Body''\<rparr>, \<lparr>title = ''Conclusion''\<rparr>] 0 (3 + 1) =
     [\<lparr>title = ''Intro''\<rparr>] @ \<lparr>title = ''Body''\<rparr> # [\<lparr>title = ''Conclusion''\<rparr>] \<and>
   chapters_return demo_services ''KeyMoment'' [\<lparr>title = ''Intro''\<rparr>] (demo_world 1)
     [(''script Intro'', ''a.mp3'', ''a.srt'', ''a.png'', ''script Intro.mp4'')] (demo_world 1) \<and>
   stage_raises demo_services ''KeyMoment'' \<lparr>title = ''Body''\<rparr> (demo_world 1)
     (Exception ''voice service down'')
     [Call (GenerateScript \<lparr>title = ''Body''\<rparr> ''KeyMoment'') (Inr ''script Body''),
      Call (GenerateVoiceover ''script Body'') (Inl (Exception ''voice service down''))]
     (demo_world 1) \<and>
   websocket_processing demo_services demo_store ''t1'' ''KeyMoment'' 0 3 (demo_world 1) =
     ([WsAccept,
       WsSend (Processing 1 3),
       Call (GenerateScript \<lparr>title = ''Intro''\<rparr> ''KeyMoment'') (Inr ''script Intro''),
       Call (GenerateVoiceover ''script Intro'') (Inr ''a.mp3''),
       Call (GenerateSubtitles ''a.mp3'') (Inr ''a.srt''),
       Call (GenerateImage ''script Intro'' ''KeyMoment'') (Inr ''a.png''),
       Call (CreateVideo ''script Intro'' ''a.mp3'' ''a.srt'' ''a.png'') (Inr ''script Intro.mp4''),
       WsSend (ChapterComplete ''script Intro.mp4'' ''Intro''),
       Sleep 1,
       WsSend (Processing 2 3),
       Call (GenerateScript \<lparr>title = ''Body''\<rparr> ''KeyMoment'') (Inr ''script Body''),
       Call (GenerateVoiceover ''script Body'') (Inl (Exception ''voice service down'')),
       WsSend (Error ''voice service down''),
       WsClose None],
      demo_world 1) \<and>
   sent (fst (websocket_processing demo_services demo_store ''t1'' ''KeyMoment'' 0 3 (demo_world 1))) =
     [Processing 1 3, ChapterComplete ''script Intro.mp4'' ''Intro'', Processing 2 3,
      Error ''voice service down''] \<and>
   Call (GenerateVoiceover ''script Body'') (Inl (Exception ''voice service down''))
     \<in> set (fst (websocket_processing demo_services demo_store ''t1'' ''KeyMoment'' 0 3 (demo_world 1))) \<and>
   (\<exists>pre. fst (websocket_processing demo_services demo_store ''t1'' ''KeyMoment'' 0 3 (demo_world 1)) =
      WsAccept # pre @
        [Call (GenerateVoiceover ''script Body'') (Inl (Exception ''voice service down'')),
         WsSend (Error (str_of (Exception ''voice service down''))), WsClose None] \<and>
      list_all routine pre \<and>
      (\<forall>m. Error m \<notin> set (sent pre) \<and> Completed m \<notin> set (sent pre)))"
proof -
  let ?chs = "[\<lparr>title = ''Intro''\<rparr>, \<lparr>title = ''Body''\<rparr>, \<lparr>title = ''Conclusion''\<rparr>]"
  have h1: "''t1'' \<noteq> []" by simp
  have h2: "demo_store ''t1'' = Some \<lparr>stored_filename = ''doc.txt'', stored_chapters = ?chs\<rparr>"
    by (simp add: demo_store_def store_task_def)
  have h3: "py_slice ?chs 0 (3 + 1) =
     [\<lparr>title = ''Intro''\<rparr>] @ \<lparr>title = ''Body''\<rparr> # [\<lparr>title = ''Conclusion''\<rparr>]"
    by (simp add: py_slice_def)
  have h4: "chapters_return demo_services ''KeyMoment'' [\<lparr>title = ''Intro''\<rparr>] (demo_world 1)
     [(''script Intro'', ''a.mp3'', ''a.srt'', ''a.png'', ''script Intro.mp4'')] (demo_world 1)"
    by (simp add: demo_stage_defs)
  have h5: "stage_raises demo_services ''KeyMoment'' \<lparr>title = ''Body''\<rparr> (demo_world 1)
     (Exception ''voice service down'')
     [Call (GenerateScript \<lparr>title = ''Body''\<rparr> ''KeyMoment'') (Inr ''script Body''),
      Call (GenerateVoiceover ''script Body'') (Inl (Exception ''voice service down''))]
     (demo_world 1)"
    by (simp add: demo_stage_defs)
  note t = stage_failure_aborts_session
    [where svc = demo_services and db = demo_store and task_id = "''t1''"
       and content_type = "''KeyMoment''" and start_chapter = 0 and end_chapter = 3
       and w = "demo_world 1"
       and task = "\<lparr>stored_filename = ''doc.txt'', stored_chapters = ?chs\<rparr>"
       and pre = "[\<lparr>title = ''Intro''\<rparr>]" and failing = "\<lparr>title = ''Body''\<rparr>"
       and post = "[\<lparr>title = ''Conclusion''\<rparr>]"
       and arts = "[(''script Intro'', ''a.mp3'', ''a.srt'', ''a.png'', ''script Intro.mp4'')]"
       and w_before = "demo_world 1" and err = "Exception ''voice service down''"
       and calls = "[Call (GenerateScript \<lparr>title = ''Body''\<rparr> ''KeyMoment'') (Inr ''script Body''),
                     Call (GenerateVoiceover ''script Body'') (Inl (Exception ''voice service down''))]"
       and w_after = "demo_world 1", THEN conjunct2, THEN conjunct1, rule_format]
  have hs: "''t1'' \<noteq> [] \<and> demo_store ''t1'' = Some \<lparr>stored_filename = ''doc.txt'', stored_chapters = ?chs\<rparr> \<and>
     py_slice (stored_chapters \<lparr>stored_filename = ''doc.txt'', stored_chapters = ?chs\<rparr>) 0 (3 + 1) =
       [\<lparr>title = ''Intro''\<rparr>] @ \<lparr>title = ''Body''\<rparr> # [\<lparr>title = ''Conclusion''\<rparr>] \<and>
     chapters_return demo_services ''KeyMoment'' [\<lparr>title = ''Intro''\<rparr>] (demo_world 1)
       [(''script Intro'', ''a.mp3'', ''a.srt'', ''a.png'', ''script Intro.mp4'')] (demo_world 1) \<and>
     stage_raises demo_services ''KeyMoment'' \<lparr>title = ''Body''\<rparr> (demo_world 1)
       (Exception ''voice service down'')
       [Call (GenerateScript \<lparr>title = ''Body''\<rparr> ''KeyMoment'') (Inr ''script Body''),
        Call (GenerateVoiceover ''script Body'') (Inl (Exception ''voice service down''))]
       (demo_world 1)"
    using h1 h2 h3 h4 h5 by simp
  from t [OF hs]
  have c1: "websocket_processing demo_services demo_store ''t1'' ''KeyMoment'' 0 3 (demo_world 1) =
     ([WsAccept,
       WsSend (Processing 1 3),
       Call (GenerateScript \<lparr>title = ''Intro''\<rparr> ''KeyMoment'') (Inr ''script Intro''),
       Call (GenerateVoiceover ''script Intro'') (Inr ''a.mp3''),
       Call (GenerateSubtitles ''a.mp3'') (Inr ''a.srt''),
       Call (GenerateImage ''script Intro'' ''KeyMoment'') (Inr ''a.png''),
       Call (CreateVideo ''script Intro'' ''a.mp3'' ''a.srt'' ''a.png'') (Inr ''script Intro.mp4''),
       WsSend (ChapterComplete ''script Intro.mp4'' ''Intro''),
       Sleep 1,
       WsSend (Processing 2 3),
       Call (GenerateScript \<lparr>title = ''Body''\<rparr> ''KeyMoment'') (Inr ''script Body''),
       Call (GenerateVoiceover ''script Body'') (Inl (Exception ''voice service down'')),
       WsSend (Error ''voice service down''),
       WsClose None],
      demo_world 1)"
    and c2: "sent (fst (websocket_processing demo_services demo_store ''t1'' ''KeyMoment'' 0 3 (demo_world 1))) =
     [Processing 1 3, ChapterComplete ''script Intro.mp4'' ''Intro'', Processing 2 3,
      Error ''voice service down'']"
    by (simp_all add: iteration_def)
  have h6: "Call (GenerateVoiceover ''script Body'') (Inl (Exception ''voice service down''))
     \<in> set (fst (websocket_processing demo_services demo_store ''t1'' ''KeyMoment'' 0 3 (demo_world 1)))"
    unfolding c1 by simp
  from stage_failure_aborts_session
    [where svc = demo_services and db = demo_store and task_id = "''t1''"
       and content_type = "''KeyMoment''" and start_chapter = 0 and end_chapter = 3
       and w = "demo_world 1" and c = "GenerateVoiceover ''script Body''"
       and err = "Exception ''voice service down''",
     THEN conjunct2, THEN conjunct2, rule_format, OF h6, THEN conjunct1]
  have c3: "\<exists>pre. fst (websocket_processing demo_services demo_store ''t1'' ''KeyMoment'' 0 3 (demo_world 1)) =
      WsAccept # pre @
        [Call (GenerateVoiceover ''script Body'') (Inl (Exception ''voice service down'')),
         WsSend (Error (str_of (Exception ''voice service down''))), WsClose None] \<and>
      list_all routine pre \<and>
      (\<forall>m. Error m \<notin> set (sent pre) \<and> Completed m \<notin> set (sent pre))" .
  show ?thesis by (intro conjI h1 h2 h3 h4 h5 c1 c2 h6 c3)
qed

text \<open>
  Claim C8. If the stages return for each selected chapter in turn, the
  handler's actions after the accept are, for each selected chapter in order:
  the processing message, the script generated from the chapter and the content
  type, the voiceover from that script, the subtitles from that audio, the
  image from the script and the content type, the video from script, audio,
  subtitles and image, each with the value the collaborator returned, the
  chapter\_complete message with that video's path and the chapter's title, and
  the pause; then the completed message and the close, in the world the last
  stage left. Conversely, in a session without a failed call the stages did
  return in this way, and these are the handler's actions.
\<close>

theorem stages_run_in_order:
  fixes content_type :: string and start_chapter end_chapter :: int
  assumes "task_id \<noteq> []" and "db task_id = Some task"
  defines "selected \<equiv> py_slice (stored_chapters task) start_chapter (end_chapter + 1)"
  defines "session arts \<equiv>
             WsAccept #
             concat (map (\<lambda>i. case arts ! i of
                            (script, audio_path, subtitles, image_path, video_path) \<Rightarrow>
                              [WsSend (Processing (i + 1) (length selected)),
                               Call (GenerateScript (selected ! i) content_type) (Inr script),
                               Call (GenerateVoiceover script) (Inr audio_path),
                               Call (GenerateSubtitles audio_path) (Inr subtitles),
                               Call (GenerateImage script content_type) (Inr image_path),
                               Call (CreateVideo script audio_path subtitles image_path)
                                 (Inr video_path),
                               WsSend (ChapterComplete video_path (title (selected ! i))),
                               Sleep 1])
                       [0..<length selected])
             @ [WsSend (Completed ''All chapters processed successfully''), WsClose None]"
  shows "(chapters_return svc content_type selected w arts w' \<longrightarrow>
            websocket_processing svc db task_id content_type start_chapter end_chapter w =
              (session arts, w')) \<and>
         (\<not> list_ex failed
              (fst (websocket_processing svc db task_id content_type start_chapter end_chapter w)) \<longrightarrow>
            (\<exists>arts. length arts = length selected \<and>
               chapters_return svc content_type selected w arts
                 (snd (websocket_processing svc db task_id content_type start_chapter end_chapter w)) \<and>
               fst (websocket_processing svc db task_id content_type start_chapter end_chapter w) =
                 session arts))"
proof -
  have s: "session arts =
             WsAccept #
             concat (map (\<lambda>i. iteration content_type (length selected) i (selected ! i) (arts ! i))
                       [0..<length selected])
             @ [WsSend (Completed ''All chapters processed successfully''), WsClose None]"
    for arts
    unfolding session_def iteration_def by simp
  have fwd: "chapters_return svc content_type selected w arts w' \<longrightarrow>
            websocket_processing svc db task_id content_type start_chapter end_chapter w =
              (session arts, w')"
  proof
    assume "chapters_return svc content_type selected w arts w'"
    from process_chapters_return [OF this, of "length selected" 0] assms(1,2)
    show "websocket_processing svc db task_id content_type start_chapter end_chapter w =
              (session arts, w')"
      unfolding s
      by (simp add: websocket_processing_def stream_chapters_def get_chapters_def
            selected_def [symmetric])
  qed
  have bwd: "\<not> list_ex failed
              (fst (websocket_processing svc db task_id content_type start_chapter end_chapter w)) \<longrightarrow>
            (\<exists>arts. length arts = length selected \<and>
               chapters_return svc content_type selected w arts
                 (snd (websocket_processing svc db task_id content_type start_chapter end_chapter w)) \<and>
               fst (websocket_processing svc db task_id content_type start_chapter end_chapter w) =
                 session arts)"
  proof
    assume nf: "\<not> list_ex failed
              (fst (websocket_processing svc db task_id content_type start_chapter end_chapter w))"
    from no_failed_stream [OF assms(1) nf] assms(2) obtain u t w0 where
      st: "stream_chapters svc db task_id content_type start_chapter end_chapter w = (Inr u, t, w0)"
      by auto
    then obtain t0 where
      loop: "process_chapters svc content_type (length selected) 0 selected w = (Inr (), t0, w0)"
      using assms(2)
      by (auto simp: stream_chapters_def get_chapters_def selected_def Let_def
               split: prod.splits sum.splits)
    from process_chapters_Inr_tied [OF loop] obtain arts where
      a: "chapters_return svc content_type selected w arts w0" by blast
    have "websocket_processing svc db task_id content_type start_chapter end_chapter w =
              (session arts, w0)"
      using process_chapters_return [OF a, of "length selected" 0] assms(1,2)
      unfolding s
      by (simp add: websocket_processing_def stream_chapters_def get_chapters_def
            selected_def [symmetric])
    with a chapters_return_length [OF a]
    show "\<exists>arts. length arts = length selected \<and>
               chapters_return svc content_type selected w arts
                 (snd (websocket_processing svc db task_id content_type start_chapter end_chapter w)) \<and>
               fst (websocket_processing svc db task_id content_type start_chapter end_chapter w) =
                 session arts"
      by auto
  qed
  from fwd bwd show ?thesis by blast
qed

text \<open>
  The range [1, 1] of the scenario: the one iteration for the chapter Body.
\<close>

theorem stages_run_in_order_witness:
  "''t1'' \<noteq> [] \<and>
   demo_store ''t1'' =
     Some \<lparr>stored_filename = ''doc.txt'',
           stored_chapters = [\<lparr>title = ''Intro''\<rparr>, \<lparr>title = ''Body''\<rparr>, \<lparr>title = ''Conclusion''\<rparr>]\<rparr> \<and>
   chapters_return demo_services ''Quiz''
     (py_slice [\<lparr>title = ''Intro''\<rparr>, \<lparr>title = ''Body''\<rparr>, \<lparr>title = ''Conclusion''\<rparr>] 1 (1 + 1))
     (demo_world 0)
     [(''script Body'', ''a.mp3'', ''a.srt'', ''a.png'', ''script Body.mp4'')] (demo_world 0) \<and>
   websocket_processing demo_services demo_store ''t1'' ''Quiz'' 1 1 (demo_world 0) =
     ([WsAccept,
       WsSend (Processing 1 1),
       Call (GenerateScript \<lparr>title = ''Body''\<rparr> ''Quiz'') (Inr ''script Body''),
       Call (GenerateVoiceover ''script Body'') (Inr ''a.mp3''),
       Call (GenerateSubtitles ''a.mp3'') (Inr ''a.srt''),
       Call (GenerateImage ''script Body'' ''Quiz'') (Inr ''a.png''),
       Call (CreateVideo ''script Body'' ''a.mp3'' ''a.srt'' ''a.png'') (Inr ''script Body.mp4''),
       WsSend (ChapterComplete ''script Body.mp4'' ''Body''),
       Sleep 1,
       WsSend (Completed ''All chapters processed successfully''),
       WsClose None],
      demo_world 0) \<and>
   \<not> list_ex failed (fst (websocket_processing demo_services demo_store ''t1'' ''Quiz'' 1 1 (demo_world 0))) \<and>
   (\<exists>arts. length arts = 1 \<and>
      chapters_return demo_services ''Quiz''
        (py_slice [\<lparr>title = ''Intro''\<rparr>, \<lparr>title = ''Body''\<rparr>, \<lparr>title = ''Conclusion''\<rparr>] 1 (1 + 1))
        (demo_world 0) arts
        (snd (websocket_processing demo_services demo_store ''t1'' ''Quiz'' 1 1 (demo_world 0))))"
proof -
  let ?chs = "[\<lparr>title = ''Intro''\<rparr>, \<lparr>title = ''Body''\<rparr>, \<lparr>title = ''Conclusion''\<rparr>]"
  have sl: "py_slice ?chs 1 (1 + 1) = [\<lparr>title = ''Body''\<rparr>]"
    by (simp add: py_slice_def)
  have h1: "''t1'' \<noteq> []" by simp
  have h2: "demo_store ''t1'' = Some \<lparr>stored_filename = ''doc.txt'', stored_chapters = ?chs\<rparr>"
    by (simp add: demo_store_def store_task_def)
  have h3: "chapters_return demo_services ''Quiz'' (py_slice ?chs 1 (1 + 1)) (demo_world 0)
     [(''script Body'', ''a.mp3'', ''a.srt'', ''a.png'', ''script Body.mp4'')] (demo_world 0)"
    unfolding sl by (simp add: demo_stage_defs)
  have h4: "\<not> list_ex failed (fst (websocket_processing demo_services demo_store ''t1'' ''Quiz'' 1 1 (demo_world 0)))"
    by (simp add: demo_defs)
  note t = stages_run_in_order
    [where task_id = "''t1''" and db = demo_store
       and task = "\<lparr>stored_filename = ''doc.txt'', stored_chapters = ?chs\<rparr>"
       and svc = demo_services and content_type = "''Quiz''" and start_chapter = 1
       and end_chapter = 1 and w = "demo_world 0"
       and arts = "[(''script Body'', ''a.mp3'', ''a.srt'', ''a.png'', ''script Body.mp4'')]"
       and w' = "demo_world 0", OF h1 h2]
  from t [THEN conjunct1, rule_format] h3
  have c1: "websocket_processing demo_services demo_store ''t1'' ''Quiz'' 1 1 (demo_world 0) =
     ([WsAccept,
       WsSend (Processing 1 1),
       Call (GenerateScript \<lparr>title = ''Body''\<rparr> ''Quiz'') (Inr ''script Body''),
       Call (GenerateVoiceover ''script Body'') (Inr ''a.mp3''),
       Call (GenerateSubtitles ''a.mp3'') (Inr ''a.srt''),
       Call (GenerateImage ''script Body'' ''Quiz'') (Inr ''a.png''),
       Call (CreateVideo ''script Body'' ''a.mp3'' ''a.srt'' ''a.png'') (Inr ''script Body.mp4''),
       WsSend (ChapterComplete ''script Body.mp4'' ''Body''),
       Sleep 1,
       WsSend (Completed ''All chapters processed successfully''),
       WsClose None],
      demo_world 0)"
    by (simp add: py_slice_def)
  from t [THEN conjunct2, rule_format, OF h4]
  have c2: "\<exists>arts. length arts = 1 \<and>
      chapters_return demo_services ''Quiz'' (py_slice ?chs 1 (1 + 1)) (demo_world 0) arts
        (snd (websocket_processing demo_services demo_store ''t1'' ''Quiz'' 1 1 (demo_world 0)))"
    by (simp add: py_slice_def) blast
  show ?thesis by (intro conjI h1 h2 h3 c1 h4 c2)
qed

text \<open>
  Claim C9, as amended. The selection is the Python slice
  \<^verbatim>\<open>chapters[start_chapter:end_chapter+1]\<close> for all integers, negative ones
  included; nothing is rejected. In a session in which every stage call returns
  there is one (processing, chapter\_complete) pair per selected chapter, each
  processing message reports the length of the selection as total\_chapters, and
  an empty selection gives the completed message alone. For
  \<open>0 \<le> start_chapter\<close> and \<open>- 1 \<le> end_chapter\<close> the number of pairs is
  \<open>max 0 (min n (end_chapter + 1) - start_chapter)\<close>, and a start at or beyond
  \<open>n\<close> selects nothing.
\<close>
theorem slice_clamps_selection:
  assumes "task_id \<noteq> []" and "db task_id = Some task"
    and "\<not> list_ex failed (fst (websocket_processing svc db task_id content_type start_chapter end_chapter w))"
  defines "selected \<equiv> py_slice (stored_chapters task) start_chapter (end_chapter + 1)"
  shows "(\<exists>videos. length videos = length selected \<and>
            sent (fst (websocket_processing svc db task_id content_type start_chapter end_chapter w)) =
              concat (map (\<lambda>i. [Processing (i + 1) (length selected),
                                 ChapterComplete (videos ! i) (title (selected ! i))])
                        [0..<length selected])
              @ [Completed ''All chapters processed successfully'']) \<and>
         (0 \<le> start_chapter \<and> - 1 \<le> end_chapter \<longrightarrow>
            int (length selected) =
              max 0 (min (int (length (stored_chapters task))) (end_chapter + 1) - start_chapter)) \<and>
         (selected = [] \<longrightarrow>
            sent (fst (websocket_processing svc db task_id content_type start_chapter end_chapter w)) =
              [Completed ''All chapters processed successfully'']) \<and>
         (int (length (stored_chapters task)) \<le> start_chapter \<longrightarrow> selected = [])"
proof -
  from no_failed_stream [OF assms(1) assms(3)] assms(2) obtain u t w' where
    st: "stream_chapters svc db task_id content_type start_chapter end_chapter w = (Inr u, t, w')"
    by auto
  from stream_chapters_Inr [OF st] assms(2) obtain arts where
    l: "length arts = length selected" and
    t: "t = concat (map (\<lambda>i. iteration content_type (length selected) i (selected ! i) (arts ! i))
                      [0..<length selected])
            @ [WsSend (Completed ''All chapters processed successfully'')]"
    unfolding selected_def by auto
  let ?videos = "map (\<lambda>a. snd (snd (snd (snd a)))) arts"
  have ev: "sent (fst (websocket_processing svc db task_id content_type start_chapter end_chapter w)) =
          concat (map (\<lambda>i. [Processing (i + 1) (length selected),
                             ChapterComplete (snd (snd (snd (snd (arts ! i))))) (title (selected ! i))])
                    [0..<length selected])
          @ [Completed ''All chapters processed successfully'']"
    using st t assms(1) by (simp add: websocket_processing_def sent_append sent_iterations)
  have meq: "map (\<lambda>i. [Processing (i + 1) (length selected),
                   ChapterComplete (snd (snd (snd (snd (arts ! i))))) (title (selected ! i))])
            [0..<length selected] =
        map (\<lambda>i. [Processing (i + 1) (length selected),
                   ChapterComplete (?videos ! i) (title (selected ! i))])
            [0..<length selected]"
    using l by (intro map_cong) simp_all
  have "sent (fst (websocket_processing svc db task_id content_type start_chapter end_chapter w)) =
          concat (map (\<lambda>i. [Processing (i + 1) (length selected),
                             ChapterComplete (?videos ! i) (title (selected ! i))])
                    [0..<length selected])
          @ [Completed ''All chapters processed successfully'']"
    by (simp only: ev meq)
  moreover have "length ?videos = length selected" using l by simp
  ultimately have a: "\<exists>videos. length videos = length selected \<and>
            sent (fst (websocket_processing svc db task_id content_type start_chapter end_chapter w)) =
              concat (map (\<lambda>i. [Processing (i + 1) (length selected),
                                 ChapterComplete (videos ! i) (title (selected ! i))])
                        [0..<length selected])
              @ [Completed ''All chapters processed successfully'']"
    by blast
  have b: "0 \<le> start_chapter \<and> - 1 \<le> end_chapter \<longrightarrow>
            int (length selected) =
              max 0 (min (int (length (stored_chapters task))) (end_chapter + 1) - start_chapter)"
    unfolding selected_def using py_slice_length_clamped by blast
  have c: "selected = [] \<longrightarrow>
            sent (fst (websocket_processing svc db task_id content_type start_chapter end_chapter w)) =
              [Completed ''All chapters processed successfully'']"
    using ev by simp
  have d: "int (length (stored_chapters task)) \<le> start_chapter \<longrightarrow> selected = []"
    unfolding selected_def using py_slice_beyond by blast
  from a b c d show ?thesis by blast
qed

text \<open>
  A range beyond the three stored chapters selects nothing: no pair, as the
  formula says, and the completed message alone.
\<close>

theorem slice_clamps_witness:
  "''t1'' \<noteq> [] \<and>
   demo_store ''t1'' =
     Some \<lparr>stored_filename = ''doc.txt'',
           stored_chapters = [\<lparr>title = ''Intro''\<rparr>, \<lparr>title = ''Body''\<rparr>, \<lparr>title = ''Conclusion''\<rparr>]\<rparr> \<and>
   \<not> list_ex failed (fst (websocket_processing demo_services demo_store ''t1'' ''KeyMoment'' 5 7 (demo_world 0))) \<and>
   (0::int) \<le> 5 \<and> (- 1::int) \<le> 7 \<and>
   int (length [\<lparr>title = ''Intro''\<rparr>, \<lparr>title = ''Body''\<rparr>, \<lparr>title = ''Conclusion''\<rparr>]) \<le> 5 \<and>
   py_slice [\<lparr>title = ''Intro''\<rparr>, \<lparr>title = ''Body''\<rparr>, \<lparr>title = ''Conclusion''\<rparr>] 5 (7 + 1) = [] \<and>
   int (length (py_slice [\<lparr>title = ''Intro''\<rparr>, \<lparr>title = ''Body''\<rparr>, \<lparr>title = ''Conclusion''\<rparr>] 5 (7 + 1))) =
     max 0 (min (int (length [\<lparr>title = ''Intro''\<rparr>, \<lparr>title = ''Body''\<rparr>, \<lparr>title = ''Conclusion''\<rparr>]))
              (7 + 1) - 5) \<and>
   sent (fst (websocket_processing demo_services demo_store ''t1'' ''KeyMoment'' 5 7 (demo_world 0))) =
     [Completed ''All chapters processed successfully'']"
proof -
  let ?chs = "[\<lparr>title = ''Intro''\<rparr>, \<lparr>title = ''Body''\<rparr>, \<lparr>title = ''Conclusion''\<rparr>]"
  have h1: "''t1'' \<noteq> []" by simp
  have h2: "demo_store ''t1'' = Some \<lparr>stored_filename = ''doc.txt'', stored_chapters = ?chs\<rparr>"
    by (simp add: demo_store_def store_task_def)
  have h3: "\<not> list_ex failed (fst (websocket_processing demo_services demo_store ''t1'' ''KeyMoment'' 5 7 (demo_world 0)))"
    by (simp add: demo_defs)
  have h4: "(0::int) \<le> 5" "(- 1::int) \<le> 7" by simp_all
  have h5: "int (length ?chs) \<le> 5" by simp
  note t = slice_clamps_selection [OF h1 h2 h3]
  from t h5 have c1: "py_slice ?chs 5 (7 + 1) = []" by simp
  from t h4 have c2: "int (length (py_slice ?chs 5 (7 + 1))) =
     max 0 (min (int (length ?chs)) (7 + 1) - 5)"
    by simp
  from t c1 have c3: "sent (fst (websocket_processing demo_services demo_store ''t1'' ''KeyMoment'' 5 7 (demo_world 0))) =
     [Completed ''All chapters processed successfully'']"
    by simp
  show ?thesis by (intro conjI h1 h2 h3 h4 h5 c1 c2 c3)
qed

text \<open>
  Claim C9 as stated fails for an end below \<open>- 1\<close>: with
  \<^verbatim>\<open>start_chapter = 0\<close>, \<^verbatim>\<open>end_chapter = -2\<close> and three chapters the slice
  \<^verbatim>\<open>chapters[0:-1]\<close> selects two chapters, while the formula gives 0.
\<close>

theorem slice_formula_counterexample:
  "''t1'' \<noteq> [] \<and>
   get_chapters demo_store ''t1'' =
     Inr [\<lparr>title = ''Intro''\<rparr>, \<lparr>title = ''Body''\<rparr>, \<lparr>title = ''Conclusion''\<rparr>] \<and>
   (0::int) \<le> 0 \<and>
   \<not> list_ex failed (fst (websocket_processing demo_services demo_store ''t1'' ''KeyMoment'' 0 (- 2) (demo_world 0))) \<and>
   int (length (filter is_processing
      (sent (fst (websocket_processing demo_services demo_store ''t1'' ''KeyMoment'' 0 (- 2) (demo_world 0))))))
     \<noteq> max 0 (min (int (length [\<lparr>title = ''Intro''\<rparr>, \<lparr>title = ''Body''\<rparr>, \<lparr>title = ''Conclusion''\<rparr>]))
              (- 2 + 1) - 0)"
  by (simp add: demo_defs)

section \<open>Properties of the upload endpoint\<close>

text \<open>The definitions of the upload handler and of the file operations it uses.\<close>

lemmas upload_defs = upload_file_def upload_try_def processing_failed_def os_remove_def
  open_write_def path_exists_def Let_def

text \<open>How a request to the upload handler can end.\<close>

lemma upload_file_cases:
  assumes "upload_file svc file db w = (r, db', w', effs)"
  shows
    "(filename file = None \<or> filename file = Some []) \<and>
       r = Inl (HTTPException 400 ''No file name provided'') \<and>
       db' = db \<and> w' = w \<and> effs = [FileClose]
     \<or>
     (\<exists>name. filename file = Some name \<and> name \<noteq> [] \<and>
        length (data file) > 100 * 1024 * 1024 \<and>
        r = Inl (HTTPException 413 ''File too large. Maximum size is 100MB'') \<and>
        db' = db \<and> w' = w \<and> effs = [FileClose])
     \<or>
     (\<exists>name e. filename file = Some name \<and> name \<noteq> [] \<and>
        length (data file) \<le> 100 * 1024 * 1024 \<and>
        ''./videos/tmp/'' @ name \<notin> directories svc \<and>
        open_write (directories svc) (''./videos/tmp/'' @ name) (data file) w = Inl e \<and>
        r = Inl (HTTPException 500 (''Error saving file: '' @ str_of e)) \<and>
        db' = db \<and> \<not> path_exists (directories svc) (''./videos/tmp/'' @ name) w' \<and>
        \<not> list_ex is_store effs \<and> \<not> list_ex is_uuid effs)
     \<or>
     (\<exists>name. filename file = Some name \<and> name \<noteq> [] \<and>
        length (data file) \<le> 100 * 1024 * 1024 \<and>
        ''./videos/tmp/'' @ name \<in> directories svc \<and>
        r = Inl (Uncaught (IOError (''[Errno 21] Is a directory: '' @
                                     quoted (''./videos/tmp/'' @ name)))) \<and>
        db' = db \<and> w' = w \<and>
        effs = [OpenWrite (''./videos/tmp/'' @ name), FileClose,
                OsRemove (''./videos/tmp/'' @ name)])
     \<or>
     (\<exists>name w1 e d. filename file = Some name \<and> name \<noteq> [] \<and>
        length (data file) \<le> 100 * 1024 * 1024 \<and>
        ''./videos/tmp/'' @ name \<notin> directories svc \<and>
        open_write (directories svc) (''./videos/tmp/'' @ name) (data file) w = Inr w1 \<and>
        ((\<exists>w2. process_file svc (''./videos/tmp/'' @ name) w1 = (Inl e, w2)) \<or>
         (\<exists>content w2 w3.
            process_file svc (''./videos/tmp/'' @ name) w1 = (Inr content, w2) \<and>
            generact_list_of_subject svc content w2 = (Inl e, w3))) \<and>
        (r = Inl (HTTPException 422 (''Error processing file: '' @ str_of e)) \<or>
         r = Inl (HTTPException 500 (''Unexpected error: '' @ d))) \<and>
        db' = db \<and> \<not> path_exists (directories svc) (''./videos/tmp/'' @ name) w' \<and>
        \<not> list_ex is_store effs \<and> \<not> list_ex is_uuid effs)
     \<or>
     (\<exists>name content titles task_id w1 w2 w3 w4 post.
        filename file = Some name \<and> name \<noteq> [] \<and>
        length (data file) \<le> 100 * 1024 * 1024 \<and>
        ''./videos/tmp/'' @ name \<notin> directories svc \<and>
        open_write (directories svc) (''./videos/tmp/'' @ name) (data file) w = Inr w1 \<and>
        process_file svc (''./videos/tmp/'' @ name) w1 = (Inr content, w2) \<and>
        generact_list_of_subject svc content w2 = (Inr titles, w3) \<and>
        uuid4 svc w3 = (task_id, w4) \<and>
        r = Inr (UploadResponse task_id titles) \<and>
        db' = store_task db task_id name (map (\<lambda>chapter. \<lparr>title = chapter\<rparr>) titles) \<and>
        \<not> path_exists (directories svc) (''./videos/tmp/'' @ name) w' \<and>
        effs = [OpenWrite (''./videos/tmp/'' @ name),
                ProcessFile (''./videos/tmp/'' @ name) (Inr content),
                GeneractListOfSubject content (Inr titles),
                Uuid4 task_id,
                StoreTask task_id name (map (\<lambda>chapter. \<lparr>title = chapter\<rparr>) titles)] @ post \<and>
        (post = [FileClose] \<or> post = [FileClose, OsRemove (''./videos/tmp/'' @ name)]))"
proof (cases "filename file = None \<or> filename file = Some []")
  case True
  with assms show ?thesis by (auto simp: upload_file_def upload_try_def)
next
  case False
  then obtain name where name: "filename file = Some name" "name \<noteq> []" by auto
  show ?thesis
  proof (cases "length (data file) > 100 * 1024 * 1024")
    case True
    with assms name show ?thesis by (auto simp: upload_file_def upload_try_def)
  next
    case False
    with assms name show ?thesis
      by (auto simp: upload_defs split: sum.splits prod.splits if_splits option.splits)
  qed
qed

text \<open>The definitions unfolded when the upload handler is run on the scenario.\<close>

lemmas demo_upload_defs = demo_services_def demo_world_def demo_upload_def
  unreadable_upload_def directory_upload_def store_task_def get_chapters_def upload_file_def
  upload_try_def processing_failed_def os_remove_def open_write_def path_exists_def isfile_def
  quoted_def Let_def

text \<open>A directory cannot be opened for writing.\<close>

lemma open_write_file: "open_write dirs path bytes w = Inr w1 \<Longrightarrow> path \<notin> dirs"
  by (auto simp: open_write_def split: if_splits)

text \<open>A result of the upload handler, by its four components.\<close>

lemma result_fields:
  "x = (fst x, fst (snd x), fst (snd (snd x)), snd (snd (snd x)))"
  by simp

text \<open>
  Claim C2. For an upload with a non-empty filename and at most 100 MB, whose
  temporary file can be written and for which extraction and segmentation
  return, the handler answers 200 with a task id and exactly the titles
  segmentation returned, in order; and a lookup of that task id in the store
  the handler leaves behind returns chapters whose titles are those titles, in
  the same order.
\<close>
theorem upload_round_trip:
  assumes "filename file = Some name" and "name \<noteq> []"
    and "length (data file) \<le> 100 * 1024 * 1024"
    and "open_write (directories svc) (''./videos/tmp/'' @ name) (data file) w = Inr w1"
    and "process_file svc (''./videos/tmp/'' @ name) w1 = (Inr content, w2)"
    and "generact_list_of_subject svc content w2 = (Inr titles, w3)"
    and "upload_file svc file db w = (r, db', w', effs)"
  shows "\<exists>task_id chs.
           r = Inr (UploadResponse task_id titles) \<and> status r = 200 \<and>
           get_chapters db' task_id = Inr chs \<and> map title chs = titles"
proof -
  from assms(4) have "''./videos/tmp/'' @ name \<notin> directories svc"
    by (rule open_write_file)
  with upload_file_cases [OF assms(7)] assms(1-6)
  obtain task_id where
    "r = Inr (UploadResponse task_id titles)"
    "db' = store_task db task_id name (map (\<lambda>chapter. \<lparr>title = chapter\<rparr>) titles)"
    by auto
  then show ?thesis
    by (simp add: get_chapters_def store_task_def comp_def)
qed


text \<open>
  The example document: three titles in the response, the same three in the
  store under the returned task id.
\<close>

theorem upload_round_trip_witness:
  "filename demo_upload = Some ''doc.txt'' \<and> ''doc.txt'' \<noteq> [] \<and>
   length (data demo_upload) \<le> 100 * 1024 * 1024 \<and>
   open_write (directories demo_services) (''./videos/tmp/'' @ ''doc.txt'') (data demo_upload)
       (demo_world 0) =
     Inr \<lparr>files = [''./videos/tmp/doc.txt'' \<mapsto> ''three sections''],
          unwritable = Map.empty, ext = 0\<rparr> \<and>
   process_file demo_services (''./videos/tmp/'' @ ''doc.txt'')
       \<lparr>files = [''./videos/tmp/doc.txt'' \<mapsto> ''three sections''],
        unwritable = Map.empty, ext = 0\<rparr> =
     (Inr ''three sections'',
      \<lparr>files = [''./videos/tmp/doc.txt'' \<mapsto> ''three sections''],
       unwritable = Map.empty, ext = 0\<rparr>) \<and>
   generact_list_of_subject demo_services ''three sections''
       \<lparr>files = [''./videos/tmp/doc.txt'' \<mapsto> ''three sections''],
        unwritable = Map.empty, ext = 0\<rparr> =
     (Inr [''Intro'', ''Body'', ''Conclusion''],
      \<lparr>files = [''./videos/tmp/doc.txt'' \<mapsto> ''three sections''],
       unwritable = Map.empty, ext = 0\<rparr>) \<and>
   (\<exists>task_id chs.
      fst (upload_file demo_services demo_upload Map.empty (demo_world 0)) =
        Inr (UploadResponse task_id [''Intro'', ''Body'', ''Conclusion'']) \<and>
      status (fst (upload_file demo_services demo_upload Map.empty (demo_world 0))) = 200 \<and>
      get_chapters (fst (snd (upload_file demo_services demo_upload Map.empty (demo_world 0))))
        task_id = Inr chs \<and>
      map title chs = [''Intro'', ''Body'', ''Conclusion''])"
proof -
  let ?w1 = "\<lparr>files = [''./videos/tmp/doc.txt'' \<mapsto> ''three sections''],
              unwritable = Map.empty, ext = (0::nat)\<rparr>"
  have h1: "filename demo_upload = Some ''doc.txt''" by (simp add: demo_upload_def)
  have h2: "''doc.txt'' \<noteq> []" by simp
  have h3: "length (data demo_upload) \<le> 100 * 1024 * 1024" by (simp add: demo_upload_def)
  have h4: "open_write (directories demo_services) (''./videos/tmp/'' @ ''doc.txt'')
              (data demo_upload) (demo_world 0) = Inr ?w1"
    by (simp add: open_write_def demo_world_def demo_upload_def demo_services_def)
  have h5: "process_file demo_services (''./videos/tmp/'' @ ''doc.txt'') ?w1 =
              (Inr ''three sections'', ?w1)"
    by (simp add: demo_services_def)
  have h6: "generact_list_of_subject demo_services ''three sections'' ?w1 =
              (Inr [''Intro'', ''Body'', ''Conclusion''], ?w1)"
    by (simp add: demo_services_def)
  from upload_round_trip
         [OF h1 h2 h3 h4 h5 h6
             result_fields [of "upload_file demo_services demo_upload Map.empty (demo_world 0)"]]
  have c: "\<exists>task_id chs.
      fst (upload_file demo_services demo_upload Map.empty (demo_world 0)) =
        Inr (UploadResponse task_id [''Intro'', ''Body'', ''Conclusion'']) \<and>
      status (fst (upload_file demo_services demo_upload Map.empty (demo_world 0))) = 200 \<and>
      get_chapters (fst (snd (upload_file demo_services demo_upload Map.empty (demo_world 0))))
        task_id = Inr chs \<and>
      map title chs = [''Intro'', ''Body'', ''Conclusion'']" .
  show ?thesis by (intro conjI h1 h2 h3 h4 h5 h6 c)
qed

text \<open>
  Claim C6. However the request ends and whatever the collaborators do to the
  files, no regular file is left at \<^verbatim>\<open>./videos/tmp/<filename>\<close> unless one
  was there before and the request was rejected with 400 or 413, in which case
  the handler wrote nothing and has left the world as it was. So a request never
  leaves behind a temporary file it wrote: on success, on 422 and on 500 there
  is no regular file at the path afterwards, and unless the path is a directory
  nothing exists there at all. When the file name makes the path a directory,
  no file is written, the removal in the \<^verbatim>\<open>finally\<close> block raises, and the
  directory stays.
\<close>

theorem upload_leaves_no_temp_file:
  assumes "upload_file svc file db w = (r, db', w', effs)"
    and "filename file = Some name"
  shows "(\<not> isfile (directories svc) (''./videos/tmp/'' @ name) w \<longrightarrow>
            \<not> isfile (directories svc) (''./videos/tmp/'' @ name) w') \<and>
         (status r \<noteq> 400 \<and> status r \<noteq> 413 \<longrightarrow>
            \<not> isfile (directories svc) (''./videos/tmp/'' @ name) w') \<and>
         (status r \<noteq> 400 \<and> status r \<noteq> 413 \<and>
          ''./videos/tmp/'' @ name \<notin> directories svc \<longrightarrow>
            \<not> path_exists (directories svc) (''./videos/tmp/'' @ name) w') \<and>
         (\<not> path_exists (directories svc) (''./videos/tmp/'' @ name) w \<longrightarrow>
            \<not> path_exists (directories svc) (''./videos/tmp/'' @ name) w') \<and>
         (status r = 400 \<or> status r = 413 \<longrightarrow> w' = w \<and> effs = [FileClose]) \<and>
         (''./videos/tmp/'' @ name \<in> directories svc \<and>
          status r \<noteq> 400 \<and> status r \<noteq> 413 \<longrightarrow>
            r = Inl (Uncaught (IOError (''[Errno 21] Is a directory: '' @
                                         quoted (''./videos/tmp/'' @ name)))) \<and>
            w' = w \<and> \<not> list_ex is_store effs)"
  using upload_file_cases [OF assms(1)] assms(2)
  by (elim disjE exE conjE) (simp_all add: isfile_def path_exists_def)

text \<open>
  The example document (answered 200) and the empty file (answered 422): in
  both cases nothing is left at the temporary path. The file over the limit
  (answered 413) leaves the world as it was. The file named \<^verbatim>\<open>..\<close> makes the
  temporary path a directory: no regular file is there afterwards, and the
  handler ends with the exception of the removal.
\<close>

theorem upload_leaves_no_temp_file_witness:
  "filename demo_upload = Some ''doc.txt'' \<and>
   \<not> isfile (directories demo_services) (''./videos/tmp/'' @ ''doc.txt'') (demo_world 0) \<and>
   status (fst (upload_file demo_services demo_upload Map.empty (demo_world 0))) = 200 \<and>
   ''./videos/tmp/'' @ ''doc.txt'' \<notin> directories demo_services \<and>
   \<not> path_exists (directories demo_services) (''./videos/tmp/'' @ ''doc.txt'')
       (fst (snd (snd (upload_file demo_services demo_upload Map.empty (demo_world 0))))) \<and>
   \<not> isfile (directories demo_services) (''./videos/tmp/'' @ ''doc.txt'')
       (fst (snd (snd (upload_file demo_services demo_upload Map.empty (demo_world 0))))) \<and>
   filename unreadable_upload = Some ''empty.txt'' \<and>
   status (fst (upload_file demo_services unreadable_upload Map.empty (demo_world 0))) = 422 \<and>
   \<not> isfile (directories demo_services) (''./videos/tmp/'' @ ''empty.txt'')
       (fst (snd (snd (upload_file demo_services unreadable_upload Map.empty (demo_world 0))))) \<and>
   filename oversize_upload = Some ''big.bin'' \<and>
   status (fst (upload_file demo_services oversize_upload Map.empty (demo_world 0))) = 413 \<and>
   fst (snd (snd (upload_file demo_services oversize_upload Map.empty (demo_world 0)))) =
     demo_world 0 \<and>
   filename directory_upload = Some ''..'' \<and>
   ''./videos/tmp/'' @ ''..'' \<in> directories demo_services \<and>
   status (fst (upload_file demo_services directory_upload Map.empty (demo_world 0))) = 500 \<and>
   fst (upload_file demo_services directory_upload Map.empty (demo_world 0)) =
     Inl (Uncaught (IOError (''[Errno 21] Is a directory: '' @ quoted (''./videos/tmp/'' @ ''..'')))) \<and>
   \<not> isfile (directories demo_services) (''./videos/tmp/'' @ ''..'')
       (fst (snd (snd (upload_file demo_services directory_upload Map.empty (demo_world 0)))))"
proof -
  have h1: "filename demo_upload = Some ''doc.txt''" by (simp add: demo_upload_def)
  have h2: "\<not> isfile (directories demo_services) (''./videos/tmp/'' @ ''doc.txt'') (demo_world 0)"
    by (simp add: isfile_def demo_world_def)
  have h3: "status (fst (upload_file demo_services demo_upload Map.empty (demo_world 0))) = 200"
    by (simp add: demo_upload_defs)
  have h3d: "''./videos/tmp/'' @ ''doc.txt'' \<notin> directories demo_services"
    by (simp add: demo_services_def)
  have h4: "filename unreadable_upload = Some ''empty.txt''" by (simp add: unreadable_upload_def)
  have h5: "status (fst (upload_file demo_services unreadable_upload Map.empty (demo_world 0))) = 422"
    by (simp add: demo_upload_defs)
  have h6: "filename oversize_upload = Some ''big.bin''" by (simp add: oversize_upload_def)
  have h7: "status (fst (upload_file demo_services oversize_upload Map.empty (demo_world 0))) = 413"
    by (simp add: upload_file_def upload_try_def oversize_upload_def)
  have h8: "filename directory_upload = Some ''..''" by (simp add: directory_upload_def)
  have h9: "''./videos/tmp/'' @ ''..'' \<in> directories demo_services"
    by (simp add: demo_services_def)
  have h10: "status (fst (upload_file demo_services directory_upload Map.empty (demo_world 0))) = 500"
    by (simp add: demo_upload_defs)
  note t1 = upload_leaves_no_temp_file
         [OF result_fields [of "upload_file demo_services demo_upload Map.empty (demo_world 0)"] h1]
  from t1 h3 h3d
  have c1: "\<not> path_exists (directories demo_services) (''./videos/tmp/'' @ ''doc.txt'')
       (fst (snd (snd (upload_file demo_services demo_upload Map.empty (demo_world 0)))))"
    by simp
  from t1 h2
  have c1f: "\<not> isfile (directories demo_services) (''./videos/tmp/'' @ ''doc.txt'')
       (fst (snd (snd (upload_file demo_services demo_upload Map.empty (demo_world 0)))))"
    by blast
  from upload_leaves_no_temp_file
         [OF result_fields [of "upload_file demo_services unreadable_upload Map.empty (demo_world 0)"]
             h4]
       h5
  have c2: "\<not> isfile (directories demo_services) (''./videos/tmp/'' @ ''empty.txt'')
       (fst (snd (snd (upload_file demo_services unreadable_upload Map.empty (demo_world 0)))))"
    by simp
  from upload_leaves_no_temp_file
         [OF result_fields [of "upload_file demo_services oversize_upload Map.empty (demo_world 0)"]
             h6]
       h7
  have c3: "fst (snd (snd (upload_file demo_services oversize_upload Map.empty (demo_world 0)))) =
     demo_world 0"
    by simp
  note t4 = upload_leaves_no_temp_file
         [OF result_fields [of "upload_file demo_services directory_upload Map.empty (demo_world 0)"]
             h8]
  from t4 h9 h10
  have c4: "fst (upload_file demo_services directory_upload Map.empty (demo_world 0)) =
     Inl (Uncaught (IOError (''[Errno 21] Is a directory: '' @ quoted (''./videos/tmp/'' @ ''..''))))"
    by simp
  from t4 h10
  have c5: "\<not> isfile (directories demo_services) (''./videos/tmp/'' @ ''..'')
       (fst (snd (snd (upload_file demo_services directory_upload Map.empty (demo_world 0)))))"
    by simp
  show ?thesis by (intro conjI h1 h2 h3 h3d h4 h5 h6 h7 h8 h9 h10 c1 c1f c2 c3 c4 c5)
qed

text \<open>
  Claim C7. A file without a name (missing or empty) is answered with 400. A
  named file of more than \<open>100 * 1024 * 1024\<close> bytes is answered with 413.
  For every file of more than that size the task store is unchanged and
  \<^verbatim>\<open>store_task\<close> is not called. The bound is strict: a file of at most
  that size is never answered with 413. The checks run in this order, so a
  file without a name is answered with 400 whatever its size.
\<close>
theorem upload_rejects_unnamed_and_oversize:
  assumes "upload_file svc file db w = (r, db', w', effs)"
  shows "(filename file = None \<or> filename file = Some [] \<longrightarrow>
            r = Inl (HTTPException 400 ''No file name provided'') \<and> status r = 400) \<and>
         ((\<exists>name. filename file = Some name \<and> name \<noteq> []) \<and>
          100 * 1024 * 1024 < length (data file) \<longrightarrow>
            r = Inl (HTTPException 413 ''File too large. Maximum size is 100MB'') \<and>
            status r = 413) \<and>
         (100 * 1024 * 1024 < length (data file) \<longrightarrow>
            db' = db \<and> \<not> list_ex is_store effs) \<and>
         (length (data file) \<le> 100 * 1024 * 1024 \<longrightarrow> status r \<noteq> 413)"
  using upload_file_cases [OF assms]
  by (elim disjE exE conjE) simp_all

text \<open>
  The file without a name, the file one byte over the limit, and the example
  document.
\<close>

theorem upload_rejects_witness:
  "filename unnamed_upload = None \<and>
   fst (upload_file demo_services unnamed_upload demo_store (demo_world 0)) =
     Inl (HTTPException 400 ''No file name provided'') \<and>
   filename oversize_upload = Some ''big.bin'' \<and> ''big.bin'' \<noteq> [] \<and>
   100 * 1024 * 1024 < length (data oversize_upload) \<and>
   fst (upload_file demo_services oversize_upload demo_store (demo_world 0)) =
     Inl (HTTPException 413 ''File too large. Maximum size is 100MB'') \<and>
   fst (snd (upload_file demo_services oversize_upload demo_store (demo_world 0))) = demo_store \<and>
   \<not> list_ex is_store
       (snd (snd (snd (upload_file demo_services oversize_upload demo_store (demo_world 0))))) \<and>
   length (data demo_upload) \<le> 100 * 1024 * 1024 \<and>
   status (fst (upload_file demo_services demo_upload demo_store (demo_world 0))) \<noteq> 413"
proof -
  have h1: "filename unnamed_upload = None" by (simp add: unnamed_upload_def)
  have h2: "filename oversize_upload = Some ''big.bin''" "''big.bin'' \<noteq> []"
    by (simp_all add: oversize_upload_def)
  have h3: "100 * 1024 * 1024 < length (data oversize_upload)"
    by (simp add: oversize_upload_def)
  have h4: "length (data demo_upload) \<le> 100 * 1024 * 1024" by (simp add: demo_upload_def)
  from upload_rejects_unnamed_and_oversize
         [of demo_services unnamed_upload demo_store "demo_world 0", OF result_fields [of "upload_file demo_services unnamed_upload demo_store (demo_world 0)"]] h1
  have c1: "fst (upload_file demo_services unnamed_upload demo_store (demo_world 0)) =
     Inl (HTTPException 400 ''No file name provided'')"
    by blast
  from upload_rejects_unnamed_and_oversize
         [of demo_services oversize_upload demo_store "demo_world 0", OF result_fields [of "upload_file demo_services oversize_upload demo_store (demo_world 0)"]] h2 h3
  have c2: "fst (upload_file demo_services oversize_upload demo_store (demo_world 0)) =
     Inl (HTTPException 413 ''File too large. Maximum size is 100MB'') \<and>
   fst (snd (upload_file demo_services oversize_upload demo_store (demo_world 0))) = demo_store \<and>
   \<not> list_ex is_store
       (snd (snd (snd (upload_file demo_services oversize_upload demo_store (demo_world 0)))))"
    by simp
  from upload_rejects_unnamed_and_oversize
         [of demo_services demo_upload demo_store "demo_world 0", OF result_fields [of "upload_file demo_services demo_upload demo_store (demo_world 0)"]] h4
  have c3: "status (fst (upload_file demo_services demo_upload demo_store (demo_world 0))) \<noteq> 413"
    by blast
  from c2 have c2a: "fst (upload_file demo_services oversize_upload demo_store (demo_world 0)) =
     Inl (HTTPException 413 ''File too large. Maximum size is 100MB'')"
    and c2b: "fst (snd (upload_file demo_services oversize_upload demo_store (demo_world 0))) = demo_store"
    and c2c: "\<not> list_ex is_store
       (snd (snd (snd (upload_file demo_services oversize_upload demo_store (demo_world 0)))))"
    by (rule conjunct1, rule conjunct2 [THEN conjunct1], rule conjunct2 [THEN conjunct2])
  show ?thesis by (intro conjI h1 h2 h3 h4 c1 c2a c2b c2c c3)
qed

text \<open>
  Claim C10. Whenever the upload does not answer 200 (that is, with 400, 413,
  422, or 500 for a failed file save or an unexpected error), the task store is
  unchanged, \<^verbatim>\<open>store_task\<close> is not called and no task id is drawn. If
  \<^verbatim>\<open>store_task\<close> is called, it is called once, right after segmentation
  returned and the task id was drawn, with the titles segmentation returned,
  and the request answers 200.
\<close>
theorem failed_upload_stores_no_task:
  assumes "upload_file svc file db w = (r, db', w', effs)"
  shows "(status r \<noteq> 200 \<longrightarrow>
            db' = db \<and> \<not> list_ex is_store effs \<and> \<not> list_ex is_uuid effs) \<and>
         (list_ex is_store effs \<longrightarrow>
            (\<exists>name content titles task_id pre post.
               filename file = Some name \<and>
               r = Inr (UploadResponse task_id titles) \<and>
               effs = pre @ [GeneractListOfSubject content (Inr titles), Uuid4 task_id,
                             StoreTask task_id name (map (\<lambda>chapter. \<lparr>title = chapter\<rparr>) titles)]
                      @ post \<and>
               \<not> list_ex is_store pre \<and> \<not> list_ex is_store post \<and>
               db' = store_task db task_id name
                       (map (\<lambda>chapter. \<lparr>title = chapter\<rparr>) titles)))"
proof -
  from upload_file_cases [OF assms]
  consider
    (rejected) "status r \<noteq> 200" "db' = db" "\<not> list_ex is_store effs" "\<not> list_ex is_uuid effs"
  | (stored) name content titles task_id post where
      "filename file = Some name" "r = Inr (UploadResponse task_id titles)"
      "db' = store_task db task_id name (map (\<lambda>chapter. \<lparr>title = chapter\<rparr>) titles)"
      "effs = [OpenWrite (''./videos/tmp/'' @ name),
               ProcessFile (''./videos/tmp/'' @ name) (Inr content),
               GeneractListOfSubject content (Inr titles),
               Uuid4 task_id,
               StoreTask task_id name (map (\<lambda>chapter. \<lparr>title = chapter\<rparr>) titles)] @ post"
      "post = [FileClose] \<or> post = [FileClose, OsRemove (''./videos/tmp/'' @ name)]"
    by (elim disjE exE conjE) auto
  then show ?thesis
  proof cases
    case rejected
    then show ?thesis by simp
  next
    case stored
    let ?pre = "[OpenWrite (''./videos/tmp/'' @ name),
                 ProcessFile (''./videos/tmp/'' @ name) (Inr content)]"
    have "effs = ?pre @ [GeneractListOfSubject content (Inr titles), Uuid4 task_id,
                         StoreTask task_id name (map (\<lambda>chapter. \<lparr>title = chapter\<rparr>) titles)]
                 @ post"
      using stored(4) by simp
    moreover have "\<not> list_ex is_store ?pre" by simp
    moreover have "\<not> list_ex is_store post" using stored(5) by auto
    moreover have "status r = 200" using stored(2) by simp
    ultimately show ?thesis using stored(1-3) by blast
  qed
qed

text \<open>
  The empty file is answered 422 and stores nothing; the example document is
  stored and answered 200.
\<close>

theorem failed_upload_witness:
  "status (fst (upload_file demo_services unreadable_upload demo_store (demo_world 0))) = 422 \<and>
   fst (snd (upload_file demo_services unreadable_upload demo_store (demo_world 0))) = demo_store \<and>
   \<not> list_ex is_store
       (snd (snd (snd (upload_file demo_services unreadable_upload demo_store (demo_world 0))))) \<and>
   \<not> list_ex is_uuid
       (snd (snd (snd (upload_file demo_services unreadable_upload demo_store (demo_world 0))))) \<and>
   list_ex is_store
       (snd (snd (snd (upload_file demo_services demo_upload demo_store (demo_world 0))))) \<and>
   (\<exists>task_id titles.
      fst (upload_file demo_services demo_upload demo_store (demo_world 0)) =
        Inr (UploadResponse task_id titles))"
proof -
  have h1: "status (fst (upload_file demo_services unreadable_upload demo_store (demo_world 0))) = 422"
    by (simp add: demo_upload_defs)
  have h2: "list_ex is_store
       (snd (snd (snd (upload_file demo_services demo_upload demo_store (demo_world 0)))))"
    by (simp add: demo_upload_defs)
  from failed_upload_stores_no_task
         [of demo_services unreadable_upload demo_store "demo_world 0", OF result_fields [of "upload_file demo_services unreadable_upload demo_store (demo_world 0)"]] h1
  have c1: "fst (snd (upload_file demo_services unreadable_upload demo_store (demo_world 0))) = demo_store \<and>
   \<not> list_ex is_store
       (snd (snd (snd (upload_file demo_services unreadable_upload demo_store (demo_world 0))))) \<and>
   \<not> list_ex is_uuid
       (snd (snd (snd (upload_file demo_services unreadable_upload demo_store (demo_world 0)))))"
    by simp
  from failed_upload_stores_no_task
         [of demo_services demo_upload demo_store "demo_world 0", OF result_fields [of "upload_file demo_services demo_upload demo_store (demo_world 0)"]] h2
  have c2: "\<exists>task_id titles.
      fst (upload_file demo_services demo_upload demo_store (demo_world 0)) =
        Inr (UploadResponse task_id titles)"
    by blast
  from c1 have c1a: "fst (snd (upload_file demo_services unreadable_upload demo_store (demo_world 0))) = demo_store"
    and c1b: "\<not> list_ex is_store
       (snd (snd (snd (upload_file demo_services unreadable_upload demo_store (demo_world 0)))))"
    and c1c: "\<not> list_ex is_uuid
       (snd (snd (snd (upload_file demo_services unreadable_upload demo_store (demo_world 0)))))"
    by (rule conjunct1, rule conjunct2 [THEN conjunct1], rule conjunct2 [THEN conjunct2])
  show ?thesis by (intro conjI h1 h2 c1a c1b c1c c2)
qed

end
